theory Spec2Isabelle
  imports Complex_Main
begin

section \<open>Python values used by the gateway\<close>

text \<open>
  Python strings are modelled as \<open>string\<close>. A value that may be \<open>None\<close> is an
  \<open>option\<close>. Python's truth test on such a value (\<open>if v:\<close>, \<open>a or b\<close>) is false
  for \<open>None\<close> and for the empty string.
\<close>

definition truthy :: "string option \<Rightarrow> bool" where
  "truthy v = (case v of None \<Rightarrow> False | Some s \<Rightarrow> s \<noteq> [])"

definition py_or :: "string option \<Rightarrow> string option \<Rightarrow> string option" where
  "py_or a b = (if truthy a then a else b)"

text \<open>
  Where the code calls the builtins \<open>str.lower()\<close> and \<open>str.strip()\<close> the model takes the
  builtin as a parameter (\<open>lower\<close>, \<open>strip\<close>), so that nothing is assumed about the letters
  and the whitespace beyond ASCII. \<open>ascii_lower\<close> folds the letters \<open>A\<close> to \<open>Z\<close> only: it is
  the lowering of header names, which are bytes, and what \<open>str.lower()\<close> does on a string of
  ASCII characters.
\<close>

definition upper_to_lower :: "(char \<times> char) list" where
  "upper_to_lower = zip ''ABCDEFGHIJKLMNOPQRSTUVWXYZ'' ''abcdefghijklmnopqrstuvwxyz''"

definition char_lower :: "char \<Rightarrow> char" where
  "char_lower c = (case map_of upper_to_lower c of None \<Rightarrow> c | Some d \<Rightarrow> d)"

definition ascii_lower :: "string \<Rightarrow> string" where
  "ascii_lower s = map char_lower s"

section \<open>Masking of secrets (\<open>_mask_key\<close>)\<close>

text \<open>
  \<open>app/routing/router.py\<close>:
  \<^verbatim>\<open>
    if not key: return ""
    k = str(key)
    if len(k) <= 6: visible = 2
    else: visible = 4
    return "*" * (len(k) - visible) + k[-visible:]
  \<close>
  \<open>"*" * n\<close> is the empty string for \<open>n \<le> 0\<close>, and the slice \<open>k[-visible:]\<close> starts at
  \<open>max 0 (len k - visible)\<close>.
\<close>

definition py_repeat :: "char \<Rightarrow> int \<Rightarrow> string" where
  "py_repeat c n = replicate (nat n) c"

definition py_suffix :: "string \<Rightarrow> int \<Rightarrow> string" where
  "py_suffix k v = drop (nat (max 0 (int (length k) - v))) k"

definition mask_key :: "string \<Rightarrow> string" where
  "mask_key key =
     (if key = [] then []
      else let k = key;
               visible = (if int (length k) \<le> 6 then 2 else 4)
           in py_repeat (CHR ''*'') (int (length k) - visible) @ py_suffix k visible)"

text \<open>
  \<open>app/api/v1/endpoints.py\<close> has its own copy, with
  \<^verbatim>\<open>visible = 4 if len(k) > 6 else 2\<close>.
\<close>

definition mask_key_endpoints :: "string \<Rightarrow> string" where
  "mask_key_endpoints key =
     (if key = [] then []
      else let k = key;
               visible = (if int (length k) > 6 then 4 else 2)
           in py_repeat (CHR ''*'') (int (length k) - visible) @ py_suffix k visible)"

section \<open>Configuration and authentication context\<close>

text \<open>
  A per-model entry of the \<open>models\<close> table. The YAML dictionary is read through the keys
  below; \<open>other\<close> holds the names of any further keys, so that the test
  \<open>if not model_config\<close> (the dictionary is empty) can be written out.
\<close>

record model_entry =
  endpoint :: "string option"
  api_key :: "string option"
  auth_header :: "string option"
  auth_prefix :: "string option"
  rate_limit :: "int option"
  api_key_source :: "string option"
  other :: "string list"

definition empty_entry :: model_entry where
  "empty_entry = \<lparr>endpoint = None, api_key = None, auth_header = None, auth_prefix = None,
     rate_limit = None, api_key_source = None, other = []\<rparr>"

definition entry_is_empty :: "model_entry \<Rightarrow> bool" where
  "entry_is_empty e \<longleftrightarrow>
     endpoint e = None \<and> api_key e = None \<and> auth_header e = None \<and> auth_prefix e = None \<and>
     rate_limit e = None \<and> api_key_source e = None \<and> other e = []"

text \<open>
  An access-control rule is the dictionary \<open>{"roles": [...], "groups": [...]}\<close>, kept as an
  association list from key to list of names.
\<close>

type_synonym access_rule = "(string \<times> string list) list"

record config =
  models :: "(string \<times> model_entry) list"
  rate_limits_by_group :: "(string \<times> int) list"
  rate_limits_default :: "int option"
  access_control :: "(string \<times> access_rule) list"

record auth_context =
  user_id :: string
  username :: "string option"
  roles :: "string list"
  groups :: "string list"
  permissions :: "string list"
  ctx_models :: "string list"
  ctx_rate_limit :: int

text \<open>\<open>ModelConfig.get_model_config\<close>: \<open>self._config.get("models", {}).get(model_name, {})\<close>.\<close>

definition get_model_config :: "config \<Rightarrow> string \<Rightarrow> model_entry" where
  "get_model_config cfg model_name =
     (case map_of (models cfg) model_name of None \<Rightarrow> empty_entry | Some e \<Rightarrow> e)"

text \<open>\<open>ModelConfig.get_access_control\<close>: \<open>access_control.get(model_name, {})\<close>.\<close>

definition get_access_control :: "config \<Rightarrow> string \<Rightarrow> access_rule" where
  "get_access_control cfg model_name =
     (case map_of (access_control cfg) model_name of None \<Rightarrow> [] | Some r \<Rightarrow> r)"

text \<open>\<open>rule.get(key, [])\<close>.\<close>

definition rule_get :: "access_rule \<Rightarrow> string \<Rightarrow> string list" where
  "rule_get r k = (case map_of r k of None \<Rightarrow> [] | Some xs \<Rightarrow> xs)"

section \<open>Access control (\<open>ModelRouter.check_access\<close>)\<close>

definition check_access ::
  "(string \<Rightarrow> string) \<Rightarrow> config \<Rightarrow> auth_context \<Rightarrow> string \<Rightarrow> bool" where
  "check_access lower cfg ctx model_name =
     (let rule = get_access_control cfg model_name in
      if rule = [] then True
      else if ctx_models ctx \<noteq> [] \<and> model_name \<in> set (ctx_models ctx) then True
      else
        let user_roles = set (map lower (roles ctx));
            user_groups = set (map lower (groups ctx));
            required_roles = map lower (rule_get rule ''roles'')
        in if required_roles \<noteq> [] \<and> \<not> list_ex (\<lambda>r. r \<in> user_roles) required_roles then False
           else
             let required_groups = map lower (rule_get rule ''groups'')
             in if required_groups \<noteq> [] \<and> \<not> list_ex (\<lambda>g. g \<in> user_groups) required_groups
                then False
                else True)"

text \<open>
  The policy in the words of the design: a requirement list is met when it is empty or the
  user holds one of its names, compared without regard to case (equal after \<open>lower\<close>).
\<close>

definition holds_one_of :: "(string \<Rightarrow> string) \<Rightarrow> string list \<Rightarrow> string list \<Rightarrow> bool" where
  "holds_one_of lower held required \<longleftrightarrow>
     (\<exists>r \<in> set required. \<exists>u \<in> set held. lower u = lower r)"

definition spec_check_access ::
  "(string \<Rightarrow> string) \<Rightarrow> config \<Rightarrow> auth_context \<Rightarrow> string \<Rightarrow> bool" where
  "spec_check_access lower cfg ctx model_name \<longleftrightarrow>
     get_access_control cfg model_name = [] \<or>
     model_name \<in> set (ctx_models ctx) \<or>
     ((rule_get (get_access_control cfg model_name) ''roles'' = [] \<or>
       holds_one_of lower (roles ctx) (rule_get (get_access_control cfg model_name) ''roles'')) \<and>
      (rule_get (get_access_control cfg model_name) ''groups'' = [] \<or>
       holds_one_of lower (groups ctx) (rule_get (get_access_control cfg model_name) ''groups'')))"

section \<open>JSON values\<close>

text \<open>
  The values \<open>response.json()\<close> can return. A Python float is \<open>Finite q\<close> for the rational
  \<open>q\<close> it denotes, or \<open>NonFinite\<close> (\<open>nan\<close>, \<open>inf\<close>); a JSON object is an association list.
\<close>

datatype pyfloat = Finite rat | NonFinite

datatype json =
    JNull
  | JBool bool
  | JInt int
  | JFloat pyfloat
  | JStr string
  | JArr "json list"
  | JObj "(string \<times> json) list"

text \<open>Python's truth value of a JSON value.\<close>

fun json_truthy :: "json \<Rightarrow> bool" where
  "json_truthy JNull = False"
| "json_truthy (JBool b) = b"
| "json_truthy (JInt n) = (n \<noteq> 0)"
| "json_truthy (JFloat (Finite q)) = (q \<noteq> 0)"
| "json_truthy (JFloat NonFinite) = True"
| "json_truthy (JStr s) = (s \<noteq> [])"
| "json_truthy (JArr xs) = (xs \<noteq> [])"
| "json_truthy (JObj kvs) = (kvs \<noteq> [])"

definition json_or :: "json \<Rightarrow> json \<Rightarrow> json" where
  "json_or a b = (if json_truthy a then a else b)"

text \<open>
  The builtin \<open>int(v)\<close>; \<open>None\<close> when it raises. A float is truncated towards zero. The
  parsing of a string is the builtin's, taken as the parameter \<open>int_of_str\<close>.
\<close>

definition truncate :: "rat \<Rightarrow> int" where
  "truncate q = (if q \<ge> 0 then \<lfloor>q\<rfloor> else \<lceil>q\<rceil>)"

fun py_int :: "(string \<Rightarrow> int option) \<Rightarrow> json \<Rightarrow> int option" where
  "py_int int_of_str (JInt n) = Some n"
| "py_int int_of_str (JBool b) = Some (if b then 1 else 0)"
| "py_int int_of_str (JFloat (Finite q)) = Some (truncate q)"
| "py_int int_of_str (JFloat NonFinite) = None"
| "py_int int_of_str (JStr s) = int_of_str s"
| "py_int int_of_str JNull = None"
| "py_int int_of_str (JArr xs) = None"
| "py_int int_of_str (JObj kvs) = None"

text \<open>\<open>d.get(k, default)\<close> on a JSON object.\<close>

definition json_get :: "(string \<times> json) list \<Rightarrow> string \<Rightarrow> json \<Rightarrow> json" where
  "json_get d k dflt = (case map_of d k of None \<Rightarrow> dflt | Some v \<Rightarrow> v)"

section \<open>HTTP failures\<close>

text \<open>
  Every \<open>raise HTTPException(status_code, detail, headers)\<close> of the source is a value. The
  detail texts are kept as constructors, with the interpolated values as arguments; a header
  value \<open>str(n)\<close> is kept as the number \<open>n\<close>.
\<close>

datatype validation_cause =
    Jwks_fetch_failed
  | Certificate_unreadable
  | Caught_signing_key_not_found
  | Claims_rejected

datatype header_value = Text string | Number int

datatype detail =
    Missing_token
  | Invalid_token
  | Invalid_token_claims
  | Token_validation_error
  | Internal_validation_error validation_cause
  | Model_not_found string
  | Access_forbidden string
  | Endpoint_not_configured string
  | Rate_limit_exceeded int
  | Upstream_error json
  | Upstream_status_text
  | Status_phrase
  | Exception_text

datatype http_exception =
  HTTPException (status_code: nat) (detail: detail) (exc_headers: "(string \<times> header_value) list")

definition www_authenticate :: "(string \<times> header_value) list" where
  "www_authenticate = [(''WWW-Authenticate'', Text ''Bearer'')]"

text \<open>A result that is an \<open>HTTPException\<close> with the given status code.\<close>

definition fails_with :: "nat \<Rightarrow> http_exception + 'a \<Rightarrow> bool" where
  "fails_with code r = (case r of Inl e \<Rightarrow> status_code e = code | Inr _ \<Rightarrow> False)"

section \<open>The quota store and the rate limiter (\<open>app/middleware/rate_limiter.py\<close>)\<close>

text \<open>
  The Redis commands the limiter issues, on a store that maps a key to an integer counter
  and its remaining time to live (\<open>None\<close>: the key never expires). The store records the
  commands it has received, oldest first. \<open>Unreachable\<close> is a store on which every command
  raises a connection error.
\<close>

record counter =
  counter_value :: int
  expiry :: "int option"

datatype redis_cmd = GET string | TTL string | INCR string | EXPIRE string int

record store =
  entries :: "string \<Rightarrow> counter option"
  commands :: "redis_cmd list"

datatype redis = Unreachable | Connected store

definition redis_get :: "store \<Rightarrow> string \<Rightarrow> int option \<times> store" where
  "redis_get s k = (map_option counter_value (entries s k), s\<lparr>commands := commands s @ [GET k]\<rparr>)"

text \<open>\<open>TTL\<close> answers \<open>-2\<close> for a missing key and \<open>-1\<close> for a key without expiry.\<close>

definition redis_ttl :: "store \<Rightarrow> string \<Rightarrow> int \<times> store" where
  "redis_ttl s k =
     ((case entries s k of None \<Rightarrow> - 2
       | Some c \<Rightarrow> (case expiry c of None \<Rightarrow> - 1 | Some t \<Rightarrow> t)),
      s\<lparr>commands := commands s @ [TTL k]\<rparr>)"

text \<open>
  \<open>INCR\<close> creates a missing key with value 1 and no expiry, and keeps the expiry of an
  existing one. The store counts in signed 64-bit integers: on a value that is not one, or
  that is the largest one, \<open>INCR\<close> answers with an error and changes nothing. The result
  says whether the command succeeded.
\<close>

definition can_incr :: "int \<Rightarrow> bool" where
  "can_incr v \<longleftrightarrow> - (2 ^ 63) \<le> v \<and> v < 2 ^ 63 - 1"

definition redis_incr :: "store \<Rightarrow> string \<Rightarrow> bool \<times> store" where
  "redis_incr s k =
     (case entries s k of
        None \<Rightarrow>
          (True, s\<lparr>entries := (entries s)(k \<mapsto> \<lparr>counter_value = 1, expiry = None\<rparr>),
                   commands := commands s @ [INCR k]\<rparr>)
      | Some c \<Rightarrow>
          if can_incr (counter_value c)
          then (True, s\<lparr>entries := (entries s)(k \<mapsto> c\<lparr>counter_value := counter_value c + 1\<rparr>),
                        commands := commands s @ [INCR k]\<rparr>)
          else (False, s\<lparr>commands := commands s @ [INCR k]\<rparr>))"

text \<open>\<open>EXPIRE\<close> sets the time to live of an existing key; a timeout that is not positive
  deletes the key. (The limiter's window is 60 seconds; a timeout too large for the store is
  not considered.)\<close>

definition redis_expire :: "store \<Rightarrow> string \<Rightarrow> int \<Rightarrow> store" where
  "redis_expire s k w =
     s\<lparr>entries :=
          (case entries s k of None \<Rightarrow> entries s
           | Some c \<Rightarrow> if w \<le> 0 then (entries s)(k := None)
                       else (entries s)(k \<mapsto> c\<lparr>expiry := Some w\<rparr>)),
       commands := commands s @ [EXPIRE k w]\<rparr>"

text \<open>The passing of \<open>d\<close> seconds: a key whose time to live is used up is gone.\<close>

definition elapse :: "int \<Rightarrow> store \<Rightarrow> store" where
  "elapse d s =
     s\<lparr>entries := (\<lambda>k. case entries s k of
          None \<Rightarrow> None
        | Some c \<Rightarrow>
            (case expiry c of
               None \<Rightarrow> Some c
             | Some t \<Rightarrow> if t \<le> d then None else Some (c\<lparr>expiry := Some (t - d)\<rparr>)))\<rparr>"

definition after_seconds :: "int \<Rightarrow> redis \<Rightarrow> redis" where
  "after_seconds d r = (case r of Unreachable \<Rightarrow> Unreachable | Connected s \<Rightarrow> Connected (elapse d s))"

text \<open>\<open>key = f"ratelimit:{model_name}:{user_id}"\<close>\<close>

definition rate_key :: "string \<Rightarrow> string \<Rightarrow> string" where
  "rate_key model_name uid = ''ratelimit:'' @ model_name @ '':'' @ uid"

text \<open>
  \<open>RateLimiter.check_rate_limit\<close>. \<open>now\<close> is \<open>int(time.time())\<close>. An \<open>HTTPException\<close>
  is re-raised; any other exception (the store cannot be reached, or it refuses the \<open>INCR\<close>
  of the pipeline, whose \<open>EXPIRE\<close> is executed all the same) is printed and the function
  returns \<open>True\<close>.
\<close>

definition check_rate_limit ::
  "redis \<Rightarrow> int \<Rightarrow> auth_context \<Rightarrow> string \<Rightarrow> int \<Rightarrow> int \<Rightarrow> (http_exception + bool) \<times> redis" where
  "check_rate_limit r now ctx model_name limit window =
     (let key = rate_key model_name (user_id ctx) in
      case r of
        Unreachable \<Rightarrow> (Inr True, Unreachable)
      | Connected s \<Rightarrow>
          let (current, s1) = redis_get s key;
              current_count = (case current of None \<Rightarrow> 0 | Some n \<Rightarrow> n)
          in if current_count \<ge> limit then
               let (ttl, s2) = redis_ttl s1 key
               in (Inl (HTTPException 429 (Rate_limit_exceeded ttl)
                          [(''X-RateLimit-Limit'', Number limit),
                           (''X-RateLimit-Remaining'', Text ''0''),
                           (''X-RateLimit-Reset'', Number (now + ttl)),
                           (''Retry-After'', Number ttl)]),
                   Connected s2)
             else
               let (incremented, s2) = redis_incr s1 key;
                   s3 = redis_expire s2 key window
               in if incremented then (Inr True, Connected s3)
                  else (Inr True, Connected s3))"

text \<open>
  The check in the words of the contract: as above, but the expiry is set to the window only
  when the counter is newly created.
\<close>

definition spec_check_rate_limit ::
  "redis \<Rightarrow> int \<Rightarrow> auth_context \<Rightarrow> string \<Rightarrow> int \<Rightarrow> int \<Rightarrow> (http_exception + bool) \<times> redis" where
  "spec_check_rate_limit r now ctx model_name limit window =
     (let key = rate_key model_name (user_id ctx) in
      case r of
        Unreachable \<Rightarrow> (Inr True, Unreachable)
      | Connected s \<Rightarrow>
          let (current, s1) = redis_get s key;
              current_count = (case current of None \<Rightarrow> 0 | Some n \<Rightarrow> n)
          in if current_count \<ge> limit then
               let (ttl, s2) = redis_ttl s1 key
               in (Inl (HTTPException 429 (Rate_limit_exceeded ttl)
                          [(''X-RateLimit-Limit'', Number limit),
                           (''X-RateLimit-Remaining'', Text ''0''),
                           (''X-RateLimit-Reset'', Number (now + ttl)),
                           (''Retry-After'', Number ttl)]),
                   Connected s2)
             else
               let newly_created = (current = None);
                   (incremented, s2) = redis_incr s1 key;
                   s3 = (if newly_created then redis_expire s2 key window else s2)
               in (Inr True, Connected s3))"

text \<open>
  A caller sending \<open>n\<close> requests, one every \<open>gap\<close> seconds, through a check: the results in
  order.
\<close>

fun requests_every ::
  "(redis \<Rightarrow> int \<Rightarrow> (http_exception + bool) \<times> redis) \<Rightarrow> int \<Rightarrow> nat \<Rightarrow> int \<Rightarrow> redis \<Rightarrow>
   (http_exception + bool) list" where
  "requests_every chk gap 0 now r = []"
| "requests_every chk gap (Suc n) now r =
     (case chk r now of
        (res, r') \<Rightarrow> res # requests_every chk gap n (now + gap) (after_seconds gap r'))"

record rate_status =
  status_limit :: int
  remaining :: int
  reset :: int
  used :: int

text \<open>\<open>RateLimiter.get_rate_limit_status\<close>.\<close>

definition get_rate_limit_status ::
  "redis \<Rightarrow> int \<Rightarrow> auth_context \<Rightarrow> string \<Rightarrow> int \<Rightarrow> rate_status \<times> redis" where
  "get_rate_limit_status r now ctx model_name limit =
     (let key = rate_key model_name (user_id ctx) in
      case r of
        Unreachable \<Rightarrow>
          (\<lparr>status_limit = limit, remaining = limit, reset = now + 60, used = 0\<rparr>, Unreachable)
      | Connected s \<Rightarrow>
          let (current, s1) = redis_get s key;
              current_count = (case current of None \<Rightarrow> 0 | Some n \<Rightarrow> n);
              (ttl, s2) = redis_ttl s1 key
          in (\<lparr>status_limit = limit, remaining = max 0 (limit - current_count),
               reset = now + max 0 ttl, used = current_count\<rparr>, Connected s2))"

text \<open>What a caller can observe of the store after a call.\<close>

definition counter_at :: "redis \<Rightarrow> string \<Rightarrow> counter option" where
  "counter_at r k = (case r of Unreachable \<Rightarrow> None | Connected s \<Rightarrow> entries s k)"

definition commands_of :: "redis \<Rightarrow> redis_cmd list" where
  "commands_of r = (case r of Unreachable \<Rightarrow> [] | Connected s \<Rightarrow> commands s)"

definition count_of :: "counter option \<Rightarrow> int" where
  "count_of c = (case c of None \<Rightarrow> 0 | Some x \<Rightarrow> counter_value x)"

text \<open>The value a counter holds after an \<open>INCR\<close>: 1 for a new counter, one more for an
  existing one, the same when the store refuses the command.\<close>

definition value_after_incr :: "counter option \<Rightarrow> int" where
  "value_after_incr c =
     (case c of None \<Rightarrow> 1
      | Some x \<Rightarrow> if can_incr (counter_value x) then counter_value x + 1 else counter_value x)"

text \<open>A check lets the request through when it returns \<open>True\<close>.\<close>

definition allowed :: "http_exception + bool \<Rightarrow> bool" where
  "allowed res \<longleftrightarrow> res = Inr True"

section \<open>Token validation (\<open>app/auth/jwt_handler.py\<close>)\<close>

text \<open>
  A bearer token is the empty string, a string that is not a JWT, or a JWT. Of a JWT the
  model keeps the header fields \<open>alg\<close> and \<open>kid\<close>, the key under which its signature
  verifies, and the claims of the payload. The claims that play no part in validation
  (\<open>scp\<close>, \<open>organization\<close>, \<open>lob\<close>, ...) are left out.
\<close>

record jwt_payload =
  p_sub :: "string option"
  p_oid :: "string option"
  p_preferred_username :: "string option"
  p_email :: "string option"
  p_roles :: "string list"
  p_groups :: "string list"
  p_aud :: "string option"
  p_iss :: "string option"
  p_exp :: "int option"
  p_iat :: "int option"
  p_nbf :: "int option"
  p_models :: "string list"
  p_permissions :: "string list"
  p_rate_limit :: "int option"

record jwt =
  jwt_alg :: "string option"
  jwt_kid :: "string option"
  jwt_signed_with :: string
  jwt_payload :: jwt_payload

datatype token = Empty_token | Malformed_token | Token jwt

text \<open>\<open>TokenClaims\<close>: \<open>sub\<close>, \<open>exp\<close> and \<open>iat\<close> are required fields.\<close>

record token_claims =
  sub :: string
  oid :: "string option"
  preferred_username :: "string option"
  email :: "string option"
  claim_roles :: "string list"
  claim_groups :: "string list"
  aud :: "string option"
  iss :: "string option"
  exp :: int
  iat :: int
  nbf :: "int option"
  claim_models :: "string list"
  claim_permissions :: "string list"
  claim_rate_limit :: "int option"

text \<open>\<open>TokenClaims(**payload)\<close>; \<open>None\<close> when a required field is missing (a
  \<open>ValidationError\<close>).\<close>

definition TokenClaims :: "jwt_payload \<Rightarrow> token_claims option" where
  "TokenClaims p =
     (case (p_sub p, p_exp p, p_iat p) of
        (Some s, Some e, Some i) \<Rightarrow>
          Some \<lparr>sub = s, oid = p_oid p, preferred_username = p_preferred_username p,
                email = p_email p, claim_roles = p_roles p, claim_groups = p_groups p,
                aud = p_aud p, iss = p_iss p, exp = e, iat = i, nbf = p_nbf p,
                claim_models = p_models p, claim_permissions = p_permissions p,
                claim_rate_limit = p_rate_limit p\<rparr>
      | _ \<Rightarrow> None)"

record settings =
  tenant_id :: string
  issuer :: string
  audience :: string
  jwt_secret_key :: string

text \<open>
  The library call \<open>jose.jwt.decode(token, key, algorithms=[alg], audience, issuer,
  options)\<close> with signature and expiry verification on. It raises \<open>JWTError\<close> when the token
  is not a JWT, its algorithm is not the allowed one or the signature does not verify under
  \<open>key\<close>; then it checks \<open>nbf\<close>, \<open>exp\<close> (\<open>ExpiredSignatureError\<close> when \<open>exp < now\<close>),
  \<open>aud\<close> and \<open>iss\<close>, raising \<open>JWTClaimsError\<close>.
\<close>

datatype jose_error = ExpiredSignatureError | JWTClaimsError | JWTError

definition jwt_decode ::
  "token \<Rightarrow> string \<Rightarrow> string \<Rightarrow> string option \<Rightarrow> string option \<Rightarrow> int \<Rightarrow> jose_error + jwt_payload" where
  "jwt_decode token key alg audience_opt issuer_opt now =
     (case token of
        Empty_token \<Rightarrow> Inl JWTError
      | Malformed_token \<Rightarrow> Inl JWTError
      | Token j \<Rightarrow>
          if jwt_alg j \<noteq> Some alg then Inl JWTError
          else if jwt_signed_with j \<noteq> key then Inl JWTError
          else
            let p = jwt_payload j in
            if (case p_nbf p of None \<Rightarrow> False | Some n \<Rightarrow> n > now) then Inl JWTClaimsError
            else if (case p_exp p of None \<Rightarrow> False | Some e \<Rightarrow> e < now)
              then Inl ExpiredSignatureError
            else if (case p_aud p of None \<Rightarrow> False | Some a \<Rightarrow> audience_opt \<noteq> Some a)
              then Inl JWTClaimsError
            else if (case issuer_opt of None \<Rightarrow> False | Some i \<Rightarrow> p_iss p \<noteq> Some i)
              then Inl JWTClaimsError
            else Inr p)"

text \<open>The signing-key set: the JSON object of the discovery endpoint, read through
  \<open>jwks.get("keys", [])\<close>. An \<open>x5c\<close> entry is the public key (PEM) its certificate holds, or
  a certificate that cannot be loaded.\<close>

datatype cert = Cert string | Unparsable

record jwk =
  jwk_kid :: "string option"
  jwk_x5c :: "cert list option"

type_synonym jwks = "(string \<times> jwk list) list"

record jwt_handler =
  jwks_cache :: "jwks option"
  jwks_cache_time :: int

definition jwks_cache_ttl :: int where
  "jwks_cache_ttl = 3600"

text \<open>The result of a call that may raise an exception other than those it handles.\<close>

datatype 'a outcome = Raised | Returned 'a

text \<open>What the \<open>GET\<close> on the discovery endpoint gives when it is made: a transport failure, a
  failing status or an unreadable body all raise.\<close>

datatype fetch = Fetch_failed | Fetched jwks

text \<open>\<open>_is_local_token\<close>: the header's \<open>alg\<close> is \<open>HS256\<close>; \<open>False\<close> when the header cannot
  be read.\<close>

definition is_local_token :: "token \<Rightarrow> bool" where
  "is_local_token token =
     (case token of Token j \<Rightarrow> jwt_alg j = Some ''HS256'' | _ \<Rightarrow> False)"

text \<open>
  \<open>_fetch_jwks\<close>: the cache is served when it is non-empty and younger than the time to
  live; otherwise the set is fetched, and only a successful fetch replaces the cache. There
  is no handler around the fetch: a failure leaves the method as an exception.
\<close>

definition fetch_jwks :: "jwt_handler \<Rightarrow> int \<Rightarrow> fetch \<Rightarrow> jwks outcome \<times> jwt_handler" where
  "fetch_jwks h current_time remote =
     (case jwks_cache h of
        Some cached \<Rightarrow>
          if cached \<noteq> [] \<and> current_time - jwks_cache_time h < jwks_cache_ttl
          then (Returned cached, h)
          else (case remote of
                  Fetch_failed \<Rightarrow> (Raised, h)
                | Fetched ks \<Rightarrow> (Returned ks, h\<lparr>jwks_cache := Some ks, jwks_cache_time := current_time\<rparr>))
      | None \<Rightarrow>
          (case remote of
             Fetch_failed \<Rightarrow> (Raised, h)
           | Fetched ks \<Rightarrow> (Returned ks, h\<lparr>jwks_cache := Some ks, jwks_cache_time := current_time\<rparr>)))"

text \<open>The loop of \<open>get_signing_key\<close> over the keys.\<close>

fun find_key :: "string \<Rightarrow> jwk list \<Rightarrow> string option outcome" where
  "find_key kid [] = Returned None"
| "find_key kid (key # keys) =
     (if jwk_kid key = Some kid then
        (case jwk_x5c key of
           Some (Cert pem # _) \<Rightarrow> Returned (Some pem)
         | Some (Unparsable # _) \<Rightarrow> Raised
         | _ \<Rightarrow> find_key kid keys)
      else find_key kid keys)"

definition get_signing_key :: "token \<Rightarrow> jwks \<Rightarrow> string option outcome" where
  "get_signing_key token ks =
     (case token of
        Token j \<Rightarrow>
          (case jwt_kid j of
             None \<Rightarrow> Returned None
           | Some kid \<Rightarrow>
               if kid = [] then Returned None
               else find_key kid (case map_of ks ''keys'' of None \<Rightarrow> [] | Some l \<Rightarrow> l))
      | _ \<Rightarrow> Returned None)"

text \<open>The \<open>except\<close> clauses of \<open>validate_token\<close> for the exceptions of the library.\<close>

definition jose_to_http :: "jose_error \<Rightarrow> http_exception" where
  "jose_to_http e =
     (case e of
        ExpiredSignatureError \<Rightarrow> HTTPException 401 Invalid_token www_authenticate
      | JWTClaimsError \<Rightarrow> HTTPException 401 Invalid_token_claims www_authenticate
      | JWTError \<Rightarrow> HTTPException 401 Token_validation_error www_authenticate)"

text \<open>The last clause, \<open>except Exception\<close>: status 500.\<close>

definition internal_error :: "validation_cause \<Rightarrow> http_exception" where
  "internal_error cause = HTTPException 500 (Internal_validation_error cause) []"

text \<open>
  \<open>validate_token\<close>. The check for an empty token is outside the \<open>try\<close>. Inside it, the
  \<open>HTTPException\<close> with status 401 raised when no signing key is found is not one of the
  library's exceptions, so the clause \<open>except Exception\<close> catches it and raises status 500.
\<close>

definition validate_token ::
  "settings \<Rightarrow> jwt_handler \<Rightarrow> int \<Rightarrow> fetch \<Rightarrow> token \<Rightarrow> (http_exception + token_claims) \<times> jwt_handler" where
  "validate_token st h now remote token =
     (if token = Empty_token then (Inl (HTTPException 401 Missing_token www_authenticate), h)
      else if is_local_token token then
        (case jwt_decode token (jwt_secret_key st) ''HS256'' None None now of
           Inl e \<Rightarrow> (Inl (jose_to_http e), h)
         | Inr payload \<Rightarrow>
             (case TokenClaims payload of
                None \<Rightarrow> (Inl (internal_error Claims_rejected), h)
              | Some claims \<Rightarrow> (Inr claims, h)))
      else
        (case fetch_jwks h now remote of
           (Raised, h') \<Rightarrow> (Inl (internal_error Jwks_fetch_failed), h')
         | (Returned ks, h') \<Rightarrow>
             (case get_signing_key token ks of
                Raised \<Rightarrow> (Inl (internal_error Certificate_unreadable), h')
              | Returned None \<Rightarrow> (Inl (internal_error Caught_signing_key_not_found), h')
              | Returned (Some signing_key) \<Rightarrow>
                  if signing_key = []
                  then (Inl (internal_error Caught_signing_key_not_found), h')
                  else
                    (case jwt_decode token signing_key ''RS256''
                            (Some (audience st)) (Some (issuer st)) now of
                       Inl e \<Rightarrow> (Inl (jose_to_http e), h')
                     | Inr payload \<Rightarrow>
                         (case TokenClaims payload of
                            None \<Rightarrow> (Inl (internal_error Claims_rejected), h')
                          | Some claims \<Rightarrow> (Inr claims, h'))))))"

section \<open>Forwarding (\<open>ModelRouter.route_request\<close>)\<close>

record chat_request =
  messages :: "(string \<times> string) list"
  model :: string
  params :: "(string \<times> json) list"

record usage =
  prompt_tokens :: int
  completion_tokens :: int
  total_tokens :: int

record chat_response =
  resp_id :: string
  resp_object :: string
  resp_created :: int
  resp_model :: string
  resp_choices :: "json list"
  resp_usage :: "usage option"

text \<open>The fields of \<open>ChatCompletionResponse\<close> other than \<open>usage\<close>.\<close>

record response_fields =
  f_id :: string
  f_object :: string
  f_created :: int
  f_model :: string
  f_choices :: "json list"

text \<open>What the upstream answers to the \<open>POST\<close>: the call raises (connection failure,
  timeout), or there is a response with a status code and a body, \<open>None\<close> when the body is
  not JSON.\<close>

datatype upstream_reply = Transport_error | Reply nat "json option"

text \<open>
  What is outside the repository: the upstream reached by \<open>client.post\<close>; the builtins
  \<open>int\<close> on strings, \<open>str.lower()\<close> and \<open>str.strip()\<close>; the conversion by the
  \<open>ChatCompletionResponse\<close> model of the values of the fields \<open>id\<close>, \<open>object\<close>, \<open>created\<close>,
  \<open>model\<close> and \<open>choices\<close> (\<open>None\<close>: a \<open>ValidationError\<close>); and the table of
  \<open>http.HTTPStatus\<close>, which has a phrase for the status codes it knows.
\<close>

record externals =
  http_post :: "string \<Rightarrow> chat_request \<Rightarrow> (string \<times> string) list \<Rightarrow> upstream_reply"
  int_of_str :: "string \<Rightarrow> int option"
  str_lower :: "string \<Rightarrow> string"
  str_strip :: "string \<Rightarrow> string"
  validate_fields :: "(string \<times> json) list \<Rightarrow> response_fields option"
  has_phrase :: "nat \<Rightarrow> bool"

record outbound =
  out_endpoint :: string
  out_headers :: "(string \<times> string) list"

text \<open>An exception leaving \<open>route_request\<close>: an \<open>HTTPException\<close> or any other.\<close>

datatype raised = Http_error http_exception | Other_error

text \<open>\<open>d[k] = v\<close> on a dictionary kept as an association list.\<close>

fun dict_set :: "'k \<Rightarrow> 'v \<Rightarrow> ('k \<times> 'v) list \<Rightarrow> ('k \<times> 'v) list" where
  "dict_set k v [] = [(k, v)]"
| "dict_set k v ((k', v') # kvs) =
     (if k' = k then (k, v) # kvs else (k', v') # dict_set k v kvs)"

definition starts_with :: "string \<Rightarrow> string \<Rightarrow> bool" where
  "starts_with p s \<longleftrightarrow> take (length p) s = p"

definition ends_with :: "string \<Rightarrow> string \<Rightarrow> bool" where
  "ends_with p s \<longleftrightarrow> length p \<le> length s \<and> drop (length s - length p) s = p"

text \<open>The header value that carries the credential: prefix and key joined by one space,
  unless the prefix is empty or already ends in a space.\<close>

definition header_value_of :: "string \<Rightarrow> string \<Rightarrow> string" where
  "header_value_of prefix key =
     (if prefix \<noteq> [] then
        (if ends_with '' '' prefix then prefix @ key else prefix @ '' '' @ key)
      else key)"

definition auth_header_of :: "model_entry \<Rightarrow> string" where
  "auth_header_of mc = (case auth_header mc of None \<Rightarrow> ''Authorization'' | Some h \<Rightarrow> h)"

definition auth_prefix_of :: "model_entry \<Rightarrow> string" where
  "auth_prefix_of mc = (case auth_prefix mc of None \<Rightarrow> [] | Some p \<Rightarrow> p)"

text \<open>The outbound headers (lines 117 to 132 of \<open>router.py\<close>).\<close>

definition build_headers :: "model_entry \<Rightarrow> (string \<times> string) list" where
  "build_headers mc =
     (let headers = [(''Content-Type'', ''application/json'')] in
      case api_key mc of
        None \<Rightarrow> headers
      | Some key \<Rightarrow>
          if key = [] then headers
          else dict_set (auth_header_of mc) (header_value_of (auth_prefix_of mc) key) headers)"

definition zero_usage :: usage where
  "zero_usage = \<lparr>prompt_tokens = 0, completion_tokens = 0, total_tokens = 0\<rparr>"

text \<open>
  The normalisation of \<open>usage\<close> (lines 185 to 202): any exception inside the \<open>try\<close>, a
  \<open>usage\<close> that is not a dictionary or a value \<open>int\<close> rejects, gives the triple of zeros.
\<close>

definition normalize_usage :: "(string \<Rightarrow> int option) \<Rightarrow> (string \<times> json) list \<Rightarrow> usage" where
  "normalize_usage to_int response_data =
     (case json_or (json_get response_data ''usage'' JNull) (JObj []) of
        JObj u \<Rightarrow>
          (case py_int to_int (json_or (json_get u ''prompt_tokens'' (JInt 0)) (JInt 0)) of
             None \<Rightarrow> zero_usage
           | Some p \<Rightarrow>
               (case py_int to_int (json_or (json_get u ''completion_tokens'' (JInt 0)) (JInt 0)) of
                  None \<Rightarrow> zero_usage
                | Some c \<Rightarrow>
                    (case py_int to_int
                            (json_or (json_get u ''total_tokens'' (JInt (p + c))) (JInt (p + c))) of
                       None \<Rightarrow> zero_usage
                     | Some t \<Rightarrow>
                         \<lparr>prompt_tokens = p, completion_tokens = c, total_tokens = t\<rparr>)))
      | _ \<Rightarrow> zero_usage)"

text \<open>
  The fields that \<open>ChatCompletionResponse\<close> declares without a default
  (\<open>app/routing/models.py\<close>): a body in which one of them is missing or \<open>null\<close> is rejected
  by the model, whatever the conversion of the others.
\<close>

definition required_fields :: "string list" where
  "required_fields = [''id'', ''object'', ''created'', ''model'', ''choices'']"

definition has_required_fields :: "(string \<times> json) list \<Rightarrow> bool" where
  "has_required_fields d =
     list_all (\<lambda>k. case map_of d k of None \<Rightarrow> False | Some v \<Rightarrow> v \<noteq> JNull) required_fields"

text \<open>
  What follows the \<open>POST\<close> (lines 179 to 222). \<open>raise_for_status\<close> raises for a status
  outside 200..299. For such a status the handler reads \<open>error_data.get("error", str(e))\<close>;
  a body that is JSON but not an object makes \<open>.get\<close> raise inside the handler, and an
  \<open>"error"\<close> that is \<open>null\<close> makes \<open>HTTPException\<close> look up the phrase of the status code,
  which raises for a code \<open>http.HTTPStatus\<close> does not know. For a success, a body that is not a
  JSON object ends in the clause \<open>except Exception\<close>, as does a rejection by the response
  model. The normalised \<open>usage\<close> is a dictionary of three integers, which the response model
  keeps as it is.
\<close>

definition handle_reply :: "externals \<Rightarrow> upstream_reply \<Rightarrow> raised + chat_response" where
  "handle_reply ext reply =
     (case reply of
        Transport_error \<Rightarrow> Inl (Http_error (HTTPException 500 Exception_text []))
      | Reply code body \<Rightarrow>
          if \<not> (200 \<le> code \<and> code \<le> 299) then
            (case body of
               None \<Rightarrow> Inl (Http_error (HTTPException code Upstream_status_text []))
             | Some (JObj error_data) \<Rightarrow>
                 (case map_of error_data ''error'' of
                    None \<Rightarrow> Inl (Http_error (HTTPException code Upstream_status_text []))
                  | Some JNull \<Rightarrow>
                      if has_phrase ext code
                      then Inl (Http_error (HTTPException code Status_phrase []))
                      else Inl Other_error
                  | Some msg \<Rightarrow> Inl (Http_error (HTTPException code (Upstream_error msg) [])))
             | Some _ \<Rightarrow> Inl Other_error)
          else
            (case body of
               Some (JObj response_data) \<Rightarrow>
                 (case (if has_required_fields response_data
                        then validate_fields ext response_data else None) of
                    None \<Rightarrow> Inl (Http_error (HTTPException 500 Exception_text []))
                  | Some f \<Rightarrow>
                      Inr \<lparr>resp_id = f_id f, resp_object = f_object f,
                           resp_created = f_created f, resp_model = f_model f,
                           resp_choices = f_choices f,
                           resp_usage = Some (normalize_usage (int_of_str ext) response_data)\<rparr>)
             | _ \<Rightarrow> Inl (Http_error (HTTPException 500 Exception_text []))))"

text \<open>\<open>route_request\<close>, with the request it posts upstream, if it posts one.\<close>

definition route_request ::
  "externals \<Rightarrow> config \<Rightarrow> chat_request \<Rightarrow> auth_context \<Rightarrow> (raised + chat_response) \<times> outbound option" where
  "route_request ext cfg request ctx =
     (let model_name = model request;
          model_config = get_model_config cfg model_name
      in if entry_is_empty model_config then
           (Inl (Http_error (HTTPException 404 (Model_not_found model_name) [])), None)
         else if \<not> check_access (str_lower ext) cfg ctx model_name then
           (Inl (Http_error (HTTPException 403 (Access_forbidden model_name) [])), None)
         else
           (case endpoint model_config of
              None \<Rightarrow>
                (Inl (Http_error (HTTPException 500 (Endpoint_not_configured model_name) [])), None)
            | Some ep \<Rightarrow>
                if ep = [] then
                  (Inl (Http_error (HTTPException 500 (Endpoint_not_configured model_name) [])), None)
                else
                  let headers = build_headers model_config
                  in (handle_reply ext (http_post ext ep request headers),
                      Some \<lparr>out_endpoint = ep, out_headers = headers\<rparr>)))"

text \<open>The sub-field of \<open>usage\<close> as the upstream sent it, and the test that it was left out
  or sent as a falsy value (\<open>null\<close>, \<open>0\<close>).\<close>

definition upstream_usage_field :: "(string \<times> json) list \<Rightarrow> string \<Rightarrow> json option" where
  "upstream_usage_field response_data k =
     (case map_of response_data ''usage'' of Some (JObj u) \<Rightarrow> map_of u k | _ \<Rightarrow> None)"

definition omitted_or_falsy :: "json option \<Rightarrow> bool" where
  "omitted_or_falsy v = (case v of None \<Rightarrow> True | Some x \<Rightarrow> \<not> json_truthy x)"

section \<open>The chat completion endpoint (\<open>app/api/v1/endpoints.py\<close>)\<close>

text \<open>
  What the handler reads of the process: \<open>os.getenv\<close>, the attributes and the \<open>__dict__\<close> of
  the settings object, and the lines of the file \<open>./.env\<close> (\<open>None\<close> when the file is missing
  or cannot be read).
\<close>

record process_env =
  os_environ :: "(string \<times> string) list"
  settings_attrs :: "(string \<times> string) list"
  settings_dict :: "(string \<times> string) list"
  dotenv_lines :: "string list option"

text \<open>\<open>str.strip(chars)\<close>, and \<open>str.strip()\<close> on a string of ASCII characters.\<close>

definition is_space :: "char \<Rightarrow> bool" where
  "is_space c \<longleftrightarrow>
     c \<in> set [CHR 0x09, CHR 0x0A, CHR 0x0B, CHR 0x0C, CHR 0x0D,
               CHR 0x1C, CHR 0x1D, CHR 0x1E, CHR 0x1F, CHR 0x20]"

definition strip_chars :: "(char \<Rightarrow> bool) \<Rightarrow> string \<Rightarrow> string" where
  "strip_chars P s = rev (dropWhile P (rev (dropWhile P s)))"

definition ascii_strip :: "string \<Rightarrow> string" where
  "ascii_strip s = strip_chars is_space s"

text \<open>
  The scan of the lines of \<open>.env\<close> for a variable:
  \<^verbatim>\<open>
    line = line.strip()
    if not line or line.startswith('#'): continue
    if '=' in line:
        k, v = line.split('=', 1)
        if k.strip() == env_var:
            value = v.strip().strip('"').strip("'"); break
  \<close>
\<close>

fun dotenv_scan :: "(string \<Rightarrow> string) \<Rightarrow> string \<Rightarrow> string list \<Rightarrow> string option" where
  "dotenv_scan strip env_var [] = None"
| "dotenv_scan strip env_var (l # ls) =
     (let line = strip l in
      if line = [] \<or> starts_with ''#'' line then dotenv_scan strip env_var ls
      else if CHR ''='' \<in> set line then
        (let k = takeWhile (\<lambda>c. c \<noteq> CHR ''='') line;
             v = drop 1 (dropWhile (\<lambda>c. c \<noteq> CHR ''='') line)
         in if strip k = env_var
            then Some (strip_chars (\<lambda>c. c = CHR 0x27) (strip_chars (\<lambda>c. c = CHR 0x22) (strip v)))
            else dotenv_scan strip env_var ls)
      else dotenv_scan strip env_var ls)"

definition dotenv_lookup :: "(string \<Rightarrow> string) \<Rightarrow> process_env \<Rightarrow> string \<Rightarrow> string option" where
  "dotenv_lookup strip env env_var =
     (case dotenv_lines env of None \<Rightarrow> None | Some ls \<Rightarrow> dotenv_scan strip env_var ls)"

text \<open>\<open>os.getenv(v) or getattr(settings, v, None) or settings.__dict__.get(v)\<close>, followed by
  the scan of \<open>.env\<close> when that is falsy; the source runs the scan a second time after its
  logging, under the same test.\<close>

definition env_value :: "(string \<Rightarrow> string) \<Rightarrow> process_env \<Rightarrow> string \<Rightarrow> string option" where
  "env_value strip env env_var =
     (let v1 = py_or (py_or (map_of (os_environ env) env_var) (map_of (settings_attrs env) env_var))
                 (map_of (settings_dict env) env_var);
          v2 = (if \<not> truthy v1
                then (case dotenv_lookup strip env env_var of None \<Rightarrow> v1 | Some v \<Rightarrow> Some v) else v1);
          v3 = (if \<not> truthy v2
                then (case dotenv_lookup strip env env_var of None \<Rightarrow> v2 | Some v \<Rightarrow> Some v) else v2)
      in v3)"

text \<open>The configured \<open>api_key\<close> of the model, a placeholder \<open>${NAME}\<close> being resolved
  through the process (lines 107 to 168).\<close>

definition cfg_api_key :: "(string \<Rightarrow> string) \<Rightarrow> process_env \<Rightarrow> model_entry \<Rightarrow> string option" where
  "cfg_api_key strip env model_cfg =
     (case api_key model_cfg of
        None \<Rightarrow> None
      | Some k \<Rightarrow>
          if starts_with ''${'' k \<and> ends_with ''}'' k
          then env_value strip env (strip (butlast (drop 2 k)))
          else Some k)"

text \<open>The request headers, looked up without regard to case (the names are bytes, folded
  on the ASCII letters), and the names the handler tries in order (lines 170 to 177).\<close>

definition headers_get :: "(string \<times> string) list \<Rightarrow> string \<Rightarrow> string option" where
  "headers_get hs name = map_of (map (\<lambda>(k, v). (ascii_lower k, v)) hs) (ascii_lower name)"

definition api_key_header_names :: "string list" where
  "api_key_header_names =
     [''openai-api-key'', ''openai_api_key'', ''openai-api-key'', ''openai_api-key'',
      ''x-api-key'', ''x-openai-api-key'', ''openai_api-key'', ''OPENAI_API_KEY'']"

fun first_header :: "(string \<times> string) list \<Rightarrow> string list \<Rightarrow> string option" where
  "first_header hs [] = None"
| "first_header hs (hn # hns) =
     (if truthy (headers_get hs hn) then headers_get hs hn else first_header hs hns)"

definition header_api_key :: "(string \<times> string) list \<Rightarrow> string option" where
  "header_api_key hs = first_header hs api_key_header_names"

text \<open>The gateway's own credential (lines 181 to 228).\<close>

definition env_api_key :: "(string \<Rightarrow> string) \<Rightarrow> process_env \<Rightarrow> string option" where
  "env_api_key strip env = env_value strip env ''OPENAI_API_KEY''"

text \<open>\<open>effective_api_key = header_api_key or env_api_key or cfg_api_key\<close>\<close>

definition effective_api_key ::
  "(string \<Rightarrow> string) \<Rightarrow> process_env \<Rightarrow> (string \<times> string) list \<Rightarrow> config \<Rightarrow> string \<Rightarrow>
   string option" where
  "effective_api_key strip env hs cfg model_name =
     py_or (py_or (header_api_key hs) (env_api_key strip env))
       (cfg_api_key strip env (get_model_config cfg model_name))"

text \<open>
  The binding (lines 233 to 264): a truthy effective key is written into the in-memory
  table, in an entry created for the model when there is none, together with its source.
\<close>

definition bind_api_key ::
  "(string \<Rightarrow> string) \<Rightarrow> process_env \<Rightarrow> (string \<times> string) list \<Rightarrow> config \<Rightarrow> string \<Rightarrow> config" where
  "bind_api_key strip env hs cfg model_name =
     (let effective = effective_api_key strip env hs cfg model_name in
      if truthy effective then
        let entry = (case map_of (models cfg) model_name of None \<Rightarrow> empty_entry | Some e \<Rightarrow> e)
        in cfg\<lparr>models :=
                 dict_set model_name
                   (entry\<lparr>api_key := effective,
                          api_key_source :=
                            Some (if truthy (header_api_key hs) then ''header'' else ''env'')\<rparr>)
                   (models cfg)\<rparr>
      else cfg)"

text \<open>\<open>ModelConfig.get_rate_limits\<close>\<close>

definition get_rate_limits :: "config \<Rightarrow> string \<Rightarrow> string option \<Rightarrow> int" where
  "get_rate_limits cfg model_name group_id =
     (case (case group_id of
              None \<Rightarrow> None
            | Some g \<Rightarrow> if g = [] then None else map_of (rate_limits_by_group cfg) g) of
        Some n \<Rightarrow> n
      | None \<Rightarrow>
          (case rate_limit (get_model_config cfg model_name) of
             Some n \<Rightarrow> n
           | None \<Rightarrow> (case rate_limits_default cfg of None \<Rightarrow> 100 | Some d \<Rightarrow> d)))"

text \<open>
  \<open>chat_completions\<close>, after the token has been validated: access check, quota check,
  binding of the credential, forwarding. The result comes with the table and the store as the
  handler leaves them and with the request posted upstream, if any. The audit logging is
  left out.
\<close>

record completion =
  result :: "http_exception + chat_response"
  config_after :: config
  redis_after :: redis
  forwarded :: "outbound option"

definition rate_limit_for :: "config \<Rightarrow> chat_request \<Rightarrow> auth_context \<Rightarrow> int" where
  "rate_limit_for cfg request ctx =
     get_rate_limits cfg (model request) (case groups ctx of [] \<Rightarrow> None | g # _ \<Rightarrow> Some g)"

definition chat_completions ::
  "externals \<Rightarrow> process_env \<Rightarrow> int \<Rightarrow> config \<Rightarrow> redis \<Rightarrow> (string \<times> string) list \<Rightarrow>
   chat_request \<Rightarrow> auth_context \<Rightarrow> completion" where
  "chat_completions ext env now cfg r http_headers request ctx =
     (if \<not> check_access (str_lower ext) cfg ctx (model request) then
        \<lparr>result = Inl (HTTPException 403 (Access_forbidden (model request)) []),
         config_after = cfg, redis_after = r, forwarded = None\<rparr>
      else
        (case check_rate_limit r now ctx (model request) (rate_limit_for cfg request ctx) 60 of
           (Inl e, r') \<Rightarrow>
             \<lparr>result = Inl e, config_after = cfg, redis_after = r', forwarded = None\<rparr>
         | (Inr _, r') \<Rightarrow>
             let cfg' = bind_api_key (str_strip ext) env http_headers cfg (model request)
             in (case route_request ext cfg' request ctx of
                   (Inl (Http_error he), out) \<Rightarrow>
                     \<lparr>result = Inl he, config_after = cfg', redis_after = r', forwarded = out\<rparr>
                 | (Inl Other_error, out) \<Rightarrow>
                     \<lparr>result = Inl (HTTPException 500 Exception_text []),
                      config_after = cfg', redis_after = r', forwarded = out\<rparr>
                 | (Inr model_response, out) \<Rightarrow>
                     \<lparr>result = Inr model_response, config_after = cfg', redis_after = r',
                      forwarded = out\<rparr>)))"

text \<open>
  The handler serving a list of requests one after the other, each on the table and the store
  as its predecessor left them.
\<close>

record call =
  call_now :: int
  call_headers :: "(string \<times> string) list"
  call_request :: chat_request
  call_ctx :: auth_context

definition handle_call :: "externals \<Rightarrow> process_env \<Rightarrow> config \<Rightarrow> redis \<Rightarrow> call \<Rightarrow> completion" where
  "handle_call ext env cfg r c =
     chat_completions ext env (call_now c) cfg r (call_headers c) (call_request c) (call_ctx c)"

fun serve :: "externals \<Rightarrow> process_env \<Rightarrow> config \<Rightarrow> redis \<Rightarrow> call list \<Rightarrow> config \<times> redis" where
  "serve ext env cfg r [] = (cfg, r)"
| "serve ext env cfg r (c # cs) =
     serve ext env (config_after (handle_call ext env cfg r c))
       (redis_after (handle_call ext env cfg r c)) cs"

text \<open>The outbound request carries the key in the header the model entry names, behind
  the entry's prefix.\<close>

definition injected :: "outbound \<Rightarrow> model_entry \<Rightarrow> string \<Rightarrow> bool" where
  "injected out entry key \<longleftrightarrow>
     map_of (out_headers out) (auth_header_of entry) =
       Some (header_value_of (auth_prefix_of entry) key)"

section \<open>Concrete inputs\<close>

definition alice :: auth_context where
  "alice = \<lparr>user_id = ''alice'', username = None, roles = [], groups = [],
     permissions = [], ctx_models = [], ctx_rate_limit = 100\<rparr>"

definition empty_store :: store where
  "empty_store = \<lparr>entries = Map.empty, commands = []\<rparr>"

definition store_with :: "string \<Rightarrow> int \<Rightarrow> int \<Rightarrow> store" where
  "store_with k n t = \<lparr>entries = [k \<mapsto> \<lparr>counter_value = n, expiry = Some t\<rparr>], commands = []\<rparr>"

definition admin_only :: config where
  "admin_only = \<lparr>models = [], rate_limits_by_group = [], rate_limits_default = None,
     access_control = [(''gpt-4'', [(''roles'', [''admin''])])]\<rparr>"

definition user_with_roles :: "string list \<Rightarrow> auth_context" where
  "user_with_roles rs = \<lparr>user_id = ''u1'', username = None, roles = rs, groups = [],
     permissions = [], ctx_models = [], ctx_rate_limit = 100\<rparr>"

definition gateway_settings :: settings where
  "gateway_settings = \<lparr>tenant_id = ''t1'', issuer = ''https://issuer'', audience = ''api://gw'',
     jwt_secret_key = ''secret''\<rparr>"

definition payload_until :: "int \<Rightarrow> jwt_payload" where
  "payload_until e = \<lparr>p_sub = Some ''alice'', p_oid = None, p_preferred_username = None,
     p_email = None, p_roles = [], p_groups = [], p_aud = Some ''api://gw'',
     p_iss = Some ''https://issuer'', p_exp = Some e, p_iat = Some 0, p_nbf = None,
     p_models = [], p_permissions = [], p_rate_limit = None\<rparr>"

definition rs_token :: "int \<Rightarrow> token" where
  "rs_token e = Token \<lparr>jwt_alg = Some ''RS256'', jwt_kid = Some ''k1'',
     jwt_signed_with = ''PEM1'', jwt_payload = payload_until e\<rparr>"

definition hs_token :: "string \<Rightarrow> int \<Rightarrow> token" where
  "hs_token key e = Token \<lparr>jwt_alg = Some ''HS256'', jwt_kid = None,
     jwt_signed_with = key, jwt_payload = (payload_until e)\<lparr>p_aud := None\<rparr>\<rparr>"

definition key_set :: jwks where
  "key_set = [(''keys'', [\<lparr>jwk_kid = Some ''k1'', jwk_x5c = Some [Cert ''PEM1'']\<rparr>])]"

definition cached_at :: "int \<Rightarrow> jwt_handler" where
  "cached_at t = \<lparr>jwks_cache = Some key_set, jwks_cache_time = t\<rparr>"

definition no_cache :: jwt_handler where
  "no_cache = \<lparr>jwks_cache = None, jwks_cache_time = 0\<rparr>"

definition gpt4_entry :: model_entry where
  "gpt4_entry = empty_entry\<lparr>endpoint := Some ''https://upstream/v1/chat'',
     api_key := Some ''sk-config'', auth_prefix := Some ''Bearer''\<rparr>"

definition one_model :: config where
  "one_model = \<lparr>models = [(''gpt-4'', gpt4_entry)], rate_limits_by_group = [],
     rate_limits_default = None, access_control = []\<rparr>"

definition hello :: "string \<Rightarrow> chat_request" where
  "hello m = \<lparr>messages = [(''user'', ''hello'')], model = m, params = []\<rparr>"

text \<open>
  Instances of the builtins and of the response model for the concrete runs. \<open>decimal_int\<close>
  reads an optional sign and decimal digits, as \<open>int\<close> does on such a string;
  \<open>typed_fields\<close> accepts a body whose five fields already have the declared types, which
  the response model accepts with the same values; \<open>known_status\<close> lists the codes of
  \<open>http.HTTPStatus\<close>.
\<close>

definition digit_value :: "char \<Rightarrow> int option" where
  "digit_value c = map_of (zip ''0123456789'' [0, 1, 2, 3, 4, 5, 6, 7, 8, 9]) c"

fun digits_to_int :: "int \<Rightarrow> string \<Rightarrow> int option" where
  "digits_to_int acc [] = Some acc"
| "digits_to_int acc (c # cs) =
     (case digit_value c of None \<Rightarrow> None | Some d \<Rightarrow> digits_to_int (10 * acc + d) cs)"

definition decimal_int :: "string \<Rightarrow> int option" where
  "decimal_int s =
     (case ascii_strip s of
        [] \<Rightarrow> None
      | c # cs \<Rightarrow>
          if c = CHR ''-'' then (if cs = [] then None else map_option uminus (digits_to_int 0 cs))
          else if c = CHR ''+'' then (if cs = [] then None else digits_to_int 0 cs)
          else digits_to_int 0 (c # cs))"

definition as_str :: "json option \<Rightarrow> string option" where
  "as_str v = (case v of Some (JStr s) \<Rightarrow> Some s | _ \<Rightarrow> None)"

definition as_int :: "json option \<Rightarrow> int option" where
  "as_int v = (case v of Some (JInt n) \<Rightarrow> Some n | _ \<Rightarrow> None)"

definition as_dicts :: "json option \<Rightarrow> json list option" where
  "as_dicts v =
     (case v of
        Some (JArr xs) \<Rightarrow>
          if list_all (\<lambda>x. case x of JObj _ \<Rightarrow> True | _ \<Rightarrow> False) xs then Some xs else None
      | _ \<Rightarrow> None)"

definition typed_fields :: "(string \<times> json) list \<Rightarrow> response_fields option" where
  "typed_fields d =
     Option.bind (as_str (map_of d ''id'')) (\<lambda>i.
     Option.bind (as_str (map_of d ''object'')) (\<lambda>ob.
     Option.bind (as_int (map_of d ''created'')) (\<lambda>cr.
     Option.bind (as_str (map_of d ''model'')) (\<lambda>m.
     Option.bind (as_dicts (map_of d ''choices'')) (\<lambda>ch.
       Some \<lparr>f_id = i, f_object = ob, f_created = cr, f_model = m, f_choices = ch\<rparr>)))))"

definition known_status :: "nat list" where
  "known_status =
     [100, 101, 102, 103, 200, 201, 202, 203, 204, 205, 206, 207, 208, 226,
      300, 301, 302, 303, 304, 305, 307, 308,
      400, 401, 402, 403, 404, 405, 406, 407, 408, 409, 410, 411, 412, 413, 414, 415, 416, 417,
      418, 421, 422, 423, 424, 425, 426, 428, 429, 431, 451,
      500, 501, 502, 503, 504, 505, 506, 507, 508, 510, 511]"

definition upstream_answering :: "json \<Rightarrow> externals" where
  "upstream_answering body = \<lparr>http_post = (\<lambda>ep req hs. Reply 200 (Some body)),
     int_of_str = decimal_int, str_lower = ascii_lower, str_strip = ascii_strip,
     validate_fields = typed_fields, has_phrase = (\<lambda>code. code \<in> set known_status)\<rparr>"

text \<open>A complete completion body, with further members appended, and the response made of it.\<close>

definition completion_body :: "(string \<times> json) list \<Rightarrow> (string \<times> json) list" where
  "completion_body extra =
     [(''id'', JStr ''chatcmpl-1''), (''object'', JStr ''chat.completion''),
      (''created'', JInt 1677652288), (''model'', JStr ''gpt-4''),
      (''choices'', JArr [JObj [(''index'', JInt 0), (''finish_reason'', JStr ''stop'')]])] @ extra"

definition answer_with :: "usage \<Rightarrow> chat_response" where
  "answer_with u = \<lparr>resp_id = ''chatcmpl-1'', resp_object = ''chat.completion'',
     resp_created = 1677652288, resp_model = ''gpt-4'',
     resp_choices = [JObj [(''index'', JInt 0), (''finish_reason'', JStr ''stop'')]],
     resp_usage = Some u\<rparr>"

definition inconsistent_usage :: "(string \<times> json) list" where
  "inconsistent_usage =
     [(''usage'', JObj [(''prompt_tokens'', JInt 10), (''completion_tokens'', JInt 15),
                        (''total_tokens'', JInt 100)])]"

definition no_models :: config where
  "no_models = \<lparr>models = [], rate_limits_by_group = [], rate_limits_default = None,
     access_control = []\<rparr>"

definition bare_env :: process_env where
  "bare_env = \<lparr>os_environ = [], settings_attrs = [], settings_dict = [], dotenv_lines = None\<rparr>"

definition env_with_key :: process_env where
  "env_with_key = bare_env\<lparr>os_environ := [(''OPENAI_API_KEY'', ''sk-env'')]\<rparr>"

definition caller_headers :: "(string \<times> string) list" where
  "caller_headers = [(''Authorization'', ''Bearer jwt''), (''X-API-Key'', ''sk-caller'')]"

definition posted_with :: "string \<Rightarrow> outbound" where
  "posted_with v = \<lparr>out_endpoint = ''https://upstream/v1/chat'',
     out_headers = [(''Content-Type'', ''application/json''), (''Authorization'', v)]\<rparr>"

definition gateway :: externals where
  "gateway = upstream_answering (JObj (completion_body []))"

definition first_call :: call where
  "first_call = \<lparr>call_now = 1000, call_headers = caller_headers,
     call_request = hello ''gpt-4'', call_ctx = alice\<rparr>"

section \<open>Properties\<close>

subsection \<open>Masking\<close>

text \<open>
  C10. A secret of length 1 or 2 comes back from the masking helper unchanged, in both copies
  of the helper: no character is replaced by a star. For length 1 the star count
  \<open>len k - 2\<close> is negative and gives the empty string, and the slice \<open>k[-2:]\<close> is the
  whole string.
\<close>

theorem mask_key_short_unchanged:
  "length k = 1 \<or> length k = 2 \<Longrightarrow>
     mask_key k = k \<and> mask_key_endpoints k = k \<and>
     (length k = 1 \<longrightarrow>
        int (length k) - 2 < 0 \<and> py_repeat (CHR ''*'') (int (length k) - 2) = [] \<and>
        py_suffix k 2 = k)"
  by (auto simp: mask_key_def mask_key_endpoints_def py_repeat_def py_suffix_def)

theorem mask_key_short_unchanged_witness:
  "(length ''k'' = 1 \<or> length ''k'' = 2) \<and> mask_key ''k'' = ''k'' \<and>
   mask_key_endpoints ''k'' = ''k'' \<and>
   (length ''ab'' = 1 \<or> length ''ab'' = 2) \<and> mask_key ''ab'' = ''ab'' \<and>
   mask_key_endpoints ''ab'' = ''ab''"
  using mask_key_short_unchanged [of "''k''"] mask_key_short_unchanged [of "''ab''"] by simp

subsection \<open>Access control\<close>

lemma list_ex_lower_mem:
  "list_ex (\<lambda>r. r \<in> lower ` set held) (map lower required) \<longleftrightarrow>
   holds_one_of lower held required"
  unfolding list_ex_iff holds_one_of_def by (simp add: image_iff) metis

text \<open>
  C7. \<open>check_access\<close> is the stated policy: it allows when the model has no rule, allows
  when the model is in the context's granted models, and otherwise allows exactly when each
  non-empty requirement list (roles, groups) is met by a name the user holds, the names on
  both sides being compared after \<open>str.lower\<close>. In particular a model without a rule is
  allowed for every context. \<open>lower\<close> stands for \<open>str.lower\<close>; the statement holds for every
  function in its place.
\<close>

theorem check_access_policy:
  "check_access lower cfg ctx m = spec_check_access lower cfg ctx m \<and>
   (get_access_control cfg m = [] \<longrightarrow> check_access lower cfg ctx m)"
  by (auto simp: check_access_def spec_check_access_def Let_def list_ex_lower_mem)

theorem check_access_policy_witness:
  "\<not> check_access ascii_lower admin_only (user_with_roles [''user'']) ''gpt-4'' \<and>
   check_access ascii_lower admin_only (user_with_roles [''Admin'']) ''gpt-4'' \<and>
   get_access_control admin_only ''gpt-3'' = [] \<and>
   check_access ascii_lower admin_only (user_with_roles [''user'']) ''gpt-3''"
  using check_access_policy [of ascii_lower admin_only "user_with_roles [''user'']" "''gpt-4''"]
        check_access_policy [of ascii_lower admin_only "user_with_roles [''Admin'']" "''gpt-4''"]
        check_access_policy [of ascii_lower admin_only "user_with_roles [''user'']" "''gpt-3''"]
  by (simp add: spec_check_access_def admin_only_def user_with_roles_def get_access_control_def
        rule_get_def holds_one_of_def ascii_lower_def char_lower_def upper_to_lower_def)

subsection \<open>Rate limiter\<close>

text \<open>What \<open>check_rate_limit\<close> does on a reachable store, for every key, limit and window:
  at or above the limit it refuses with status 429 and leaves the counter as it is; below the
  limit it issues \<open>INCR\<close> and \<open>EXPIRE\<close> and returns \<open>True\<close>.\<close>

lemma check_rate_limit_effect:
  "k = rate_key m (user_id ctx) \<Longrightarrow> c = count_of (entries s k) \<Longrightarrow>
   (limit \<le> c \<longrightarrow>
      fst (check_rate_limit (Connected s) now ctx m limit window) =
        Inl (HTTPException 429 (Rate_limit_exceeded (fst (redis_ttl s k)))
              [(''X-RateLimit-Limit'', Number limit), (''X-RateLimit-Remaining'', Text ''0''),
               (''X-RateLimit-Reset'', Number (now + fst (redis_ttl s k))),
               (''Retry-After'', Number (fst (redis_ttl s k)))]) \<and>
      counter_at (snd (check_rate_limit (Connected s) now ctx m limit window)) = entries s \<and>
      commands_of (snd (check_rate_limit (Connected s) now ctx m limit window)) =
        commands s @ [GET k, TTL k]) \<and>
   (c < limit \<longrightarrow>
      fst (check_rate_limit (Connected s) now ctx m limit window) = Inr True \<and>
      counter_at (snd (check_rate_limit (Connected s) now ctx m limit window)) =
        (entries s)(k := if 0 < window
                         then Some \<lparr>counter_value = value_after_incr (entries s k),
                                    expiry = Some window\<rparr>
                         else None) \<and>
      commands_of (snd (check_rate_limit (Connected s) now ctx m limit window)) =
        commands s @ [GET k, INCR k, EXPIRE k window])"
  by (auto simp: check_rate_limit_def redis_get_def redis_ttl_def redis_incr_def redis_expire_def
        counter_at_def commands_of_def count_of_def value_after_incr_def Let_def fun_eq_iff
        split: option.splits)

text \<open>A counter that holds the largest value of the store is not incremented: the store
  refuses the \<open>INCR\<close>, the limiter returns \<open>True\<close> and the \<open>EXPIRE\<close> has been executed.\<close>

lemma refused_incr_fails_open:
  "fst (check_rate_limit (Connected (store_with (rate_key ''gpt-4'' ''alice'') (2 ^ 63 - 1) 10))
          1000 alice ''gpt-4'' (2 ^ 63) 60) = Inr True \<and>
   counter_at (snd (check_rate_limit
          (Connected (store_with (rate_key ''gpt-4'' ''alice'') (2 ^ 63 - 1) 10))
          1000 alice ''gpt-4'' (2 ^ 63) 60)) (rate_key ''gpt-4'' ''alice'') =
     Some \<lparr>counter_value = 2 ^ 63 - 1, expiry = Some 60\<rparr>"
  by (simp add: check_rate_limit_def redis_get_def redis_incr_def redis_expire_def can_incr_def
        counter_at_def alice_def store_with_def Let_def)

text \<open>The expiry of a counter that already exists is set to the window again.\<close>

lemma existing_counter_expiry_renewed:
  "entries (store_with (rate_key ''gpt-4'' ''alice'') 1 10) (rate_key ''gpt-4'' ''alice'') =
      Some \<lparr>counter_value = 1, expiry = Some 10\<rparr> \<and>
   fst (check_rate_limit (Connected (store_with (rate_key ''gpt-4'' ''alice'') 1 10)) 1000 alice
          ''gpt-4'' 5 60) = Inr True \<and>
   counter_at (snd (check_rate_limit (Connected (store_with (rate_key ''gpt-4'' ''alice'') 1 10))
          1000 alice ''gpt-4'' 5 60)) (rate_key ''gpt-4'' ''alice'') =
      Some \<lparr>counter_value = 2, expiry = Some 60\<rparr>"
  by (simp add: check_rate_limit_def redis_get_def redis_incr_def redis_expire_def can_incr_def
        counter_at_def alice_def store_with_def Let_def)

lemmas limiter_defs = check_rate_limit_def spec_check_rate_limit_def redis_get_def redis_ttl_def
  redis_incr_def redis_expire_def can_incr_def elapse_def after_seconds_def rate_key_def Let_def

text \<open>
  C2. The contract increments the counter and sets its expiry to the window only if the
  counter was newly created; \<open>check_rate_limit\<close> sets the expiry on every call it allows.
  The two differ for a caller within the limit: with a limit of 5 per window of 60 seconds, a
  caller who sends one request every 59 seconds (never more than two in any 60 seconds) has
  the sixth request refused by \<open>check_rate_limit\<close>, because the counter never expires, while
  the check of the contract allows all six.
\<close>

theorem renewed_expiry_refuses_sixth_request:
  "map allowed (requests_every (\<lambda>r now. check_rate_limit r now alice ''gpt-4'' 5 60) 59 6 0
      (Connected empty_store)) = [True, True, True, True, True, False] \<and>
   map allowed (requests_every (\<lambda>r now. spec_check_rate_limit r now alice ''gpt-4'' 5 60) 59 6 0
      (Connected empty_store)) = [True, True, True, True, True, True]"
  by (simp add: eval_nat_numeral limiter_defs allowed_def alice_def empty_store_def)

text \<open>
  C5 (amended). On a reachable store the status query reports \<open>used\<close> as the stored counter
  (0 when absent), \<open>remaining = max 0 (limit - used)\<close>, and \<open>reset = now + ttl\<close> for an
  existing counter with \<open>ttl\<close> seconds to live; when no counter exists, \<open>reset = now\<close>.
\<close>

theorem rate_limit_status_values:
  "k = rate_key m (user_id ctx) \<Longrightarrow>
   used (fst (get_rate_limit_status (Connected s) now ctx m limit)) = count_of (entries s k) \<and>
   remaining (fst (get_rate_limit_status (Connected s) now ctx m limit)) =
     max 0 (limit - count_of (entries s k)) \<and>
   (\<forall>c t. entries s k = Some c \<and> expiry c = Some t \<and> 0 \<le> t \<longrightarrow>
      reset (fst (get_rate_limit_status (Connected s) now ctx m limit)) = now + t) \<and>
   (entries s k = None \<longrightarrow>
      reset (fst (get_rate_limit_status (Connected s) now ctx m limit)) = now)"
  by (auto simp: get_rate_limit_status_def redis_get_def redis_ttl_def count_of_def Let_def
        split: option.splits)

theorem rate_limit_status_values_witness:
  "used (fst (get_rate_limit_status (Connected (store_with (rate_key ''default'' ''alice'') 3 42)) 1000 alice ''default'' 10)) = 3 \<and>
   remaining (fst (get_rate_limit_status (Connected (store_with (rate_key ''default'' ''alice'') 3 42)) 1000 alice ''default'' 10)) = 7 \<and>
   reset (fst (get_rate_limit_status (Connected (store_with (rate_key ''default'' ''alice'') 3 42)) 1000 alice ''default'' 10)) = 1042 \<and>
   reset (fst (get_rate_limit_status (Connected empty_store) 1000 alice ''default'' 10)) = 1000"
  using rate_limit_status_values [of "rate_key ''default'' ''alice''" "''default''" alice
          "store_with (rate_key ''default'' ''alice'') 3 42" 1000 10]
        rate_limit_status_values [of "rate_key ''default'' ''alice''" "''default''" alice
          empty_store 1000 10]
  by (simp add: alice_def store_with_def empty_store_def count_of_def)

text \<open>
  C5 as stated fails: with no counter for the key, \<open>reset\<close> is \<open>now\<close>, not \<open>now\<close> plus a
  window (neither the 60 seconds of the check nor the 3600 seconds the endpoint reports).
\<close>

theorem rate_limit_status_reset_counterexample:
  "entries empty_store (rate_key ''default'' ''alice'') = None \<and>
   reset (fst (get_rate_limit_status (Connected empty_store) 1000 alice ''default'' 10)) = 1000 \<and>
   reset (fst (get_rate_limit_status (Connected empty_store) 1000 alice ''default'' 10)) \<noteq> 1000 + 60 \<and>
   reset (fst (get_rate_limit_status (Connected empty_store) 1000 alice ''default'' 10)) \<noteq> 1000 + 3600"
  by (simp add: get_rate_limit_status_def redis_get_def redis_ttl_def empty_store_def Let_def)

text \<open>
  C6. With the store unreachable the check returns \<open>True\<close> (it raises no 429) and the status
  query reports the full quota: \<open>used = 0\<close> and \<open>remaining = limit\<close>.
\<close>

theorem limiter_fails_open:
  "check_rate_limit Unreachable now ctx m limit window = (Inr True, Unreachable) \<and>
   fst (get_rate_limit_status Unreachable now ctx m limit) =
     \<lparr>status_limit = limit, remaining = limit, reset = now + 60, used = 0\<rparr>"
  by (simp add: check_rate_limit_def get_rate_limit_status_def)

theorem limiter_fails_open_witness:
  "check_rate_limit Unreachable 1000 alice ''gpt-4'' 5 60 = (Inr True, Unreachable) \<and>
   used (fst (get_rate_limit_status Unreachable 1000 alice ''gpt-4'' 5)) = 0 \<and>
   remaining (fst (get_rate_limit_status Unreachable 1000 alice ''gpt-4'' 5)) = 5"
  using limiter_fails_open [of 1000 alice "''gpt-4''" 5 60] by simp

subsection \<open>Token validation\<close>

lemmas token_inputs = gateway_settings_def payload_until_def rs_token_def hs_token_def key_set_def
  cached_at_def no_cache_def

lemmas validate_defs = validate_token_def is_local_token_def fetch_jwks_def get_signing_key_def
  jwt_decode_def TokenClaims_def jose_to_http_def internal_error_def jwks_cache_ttl_def

text \<open>
  C4 (amended). When the cached key set is present but stale and the fetch of the key set
  fails, validation of a non-empty token on the asymmetric path does not serve the stale set:
  it fails with status 500 (internal validation error), and the handler's cache is left as
  it was.
\<close>

theorem stale_cache_fetch_failure_surfaces:
  "token \<noteq> Empty_token \<Longrightarrow> \<not> is_local_token token \<Longrightarrow>
   jwks_cache h = Some cached \<Longrightarrow> jwks_cache_ttl \<le> now - jwks_cache_time h \<Longrightarrow>
   validate_token st h now Fetch_failed token =
     (Inl (HTTPException 500 (Internal_validation_error Jwks_fetch_failed) []), h)"
  by (simp add: validate_token_def fetch_jwks_def internal_error_def)

theorem stale_cache_fetch_failure_surfaces_witness:
  "rs_token 5000 \<noteq> Empty_token \<and> \<not> is_local_token (rs_token 5000) \<and>
   jwks_cache (cached_at 0) = Some key_set \<and> jwks_cache_ttl \<le> 4000 - jwks_cache_time (cached_at 0) \<and>
   validate_token gateway_settings (cached_at 0) 4000 Fetch_failed (rs_token 5000) =
     (Inl (HTTPException 500 (Internal_validation_error Jwks_fetch_failed) []), cached_at 0)"
  using stale_cache_fetch_failure_surfaces [of "rs_token 5000" "cached_at 0" key_set 4000 gateway_settings]
  by (simp add: token_inputs is_local_token_def jwks_cache_ttl_def)

text \<open>
  C4 as stated fails: a token that the cached key set validates while the cache is fresh is
  refused with status 500 once the cache is stale and the fetch fails.
\<close>

theorem stale_cache_not_served_counterexample:
  "jwks_cache (cached_at 0) = Some key_set \<and> jwks_cache_ttl \<le> 4000 - jwks_cache_time (cached_at 0) \<and>
   fails_with 500 (fst (validate_token gateway_settings (cached_at 0) 4000 Fetch_failed (rs_token 5000))) \<and>
   \<not> fails_with 500 (fst (validate_token gateway_settings (cached_at 3000) 4000 Fetch_failed (rs_token 5000)))"
  by (simp add: token_inputs validate_defs fails_with_def)

text \<open>An expired token never leaves the library's decoding with a payload.\<close>

lemma jwt_decode_expired:
  "p_exp (jwt_payload j) = Some e \<Longrightarrow> e < now \<Longrightarrow>
   \<exists>err. jwt_decode (Token j) key alg a i now = Inl err"
  by (simp add: jwt_decode_def Let_def)

lemma jose_to_http_401: "status_code (jose_to_http err) = 401"
  by (cases err) (simp_all add: jose_to_http_def)

text \<open>
  C8 (amended). A token whose \<open>exp\<close> is in the past fails with status 401 whatever its
  signature: always on the symmetric (HS256) path, and on the asymmetric path whenever the
  key set is obtained (fresh cache or successful fetch) and holds a signing key for the
  token's \<open>kid\<close>. When the key set cannot be obtained the failure has status 500.
\<close>

theorem expired_token_unauthenticated:
  "token = Token j \<Longrightarrow> p_exp (jwt_payload j) = Some e \<Longrightarrow> e < now \<Longrightarrow>
   (is_local_token token \<longrightarrow>
      fails_with 401 (fst (validate_token st h now remote token))) \<and>
   (\<not> is_local_token token \<longrightarrow>
      (\<forall>ks h' k. fetch_jwks h now remote = (Returned ks, h') \<and>
                get_signing_key token ks = Returned (Some k) \<and> k \<noteq> [] \<longrightarrow>
         fails_with 401 (fst (validate_token st h now remote token)))) \<and>
   (\<not> is_local_token token \<and> fst (fetch_jwks h now remote) = Raised \<longrightarrow>
      fails_with 500 (fst (validate_token st h now remote token)))"
proof (intro conjI impI allI)
  assume tok: "token = Token j" and ex: "p_exp (jwt_payload j) = Some e" "e < now"
  {
    assume "is_local_token token"
    moreover obtain err where "jwt_decode (Token j) (jwt_secret_key st) ''HS256'' None None now = Inl err"
      using jwt_decode_expired [OF ex] by blast
    ultimately show "fails_with 401 (fst (validate_token st h now remote token))"
      using tok by (simp add: validate_token_def fails_with_def jose_to_http_401)
  }
  {
    fix ks h' k
    assume "\<not> is_local_token token"
      and "fetch_jwks h now remote = (Returned ks, h') \<and>
           get_signing_key token ks = Returned (Some k) \<and> k \<noteq> []"
    moreover obtain err where
      "jwt_decode (Token j) k ''RS256'' (Some (audience st)) (Some (issuer st)) now = Inl err"
      using jwt_decode_expired [OF ex] by blast
    ultimately show "fails_with 401 (fst (validate_token st h now remote token))"
      using tok by (simp add: validate_token_def fails_with_def jose_to_http_401)
  }
  {
    assume "\<not> is_local_token token \<and> fst (fetch_jwks h now remote) = Raised"
    then show "fails_with 500 (fst (validate_token st h now remote token))"
      using tok
      by (cases "fetch_jwks h now remote")
         (simp add: validate_token_def fails_with_def internal_error_def)
  }
qed

theorem expired_token_unauthenticated_witness:
  "fails_with 401 (fst (validate_token gateway_settings no_cache 4000 Fetch_failed (hs_token ''secret'' 3999))) \<and>
   fails_with 401 (fst (validate_token gateway_settings no_cache 4000 Fetch_failed (hs_token ''forged'' 3999))) \<and>
   fetch_jwks no_cache 4000 (Fetched key_set) = (Returned key_set, cached_at 4000) \<and>
   get_signing_key (rs_token 3999) key_set = Returned (Some ''PEM1'') \<and>
   fails_with 401 (fst (validate_token gateway_settings no_cache 4000 (Fetched key_set) (rs_token 3999)))"
  using expired_token_unauthenticated [of "hs_token ''secret'' 3999" _ 3999 4000 gateway_settings no_cache Fetch_failed]
        expired_token_unauthenticated [of "hs_token ''forged'' 3999" _ 3999 4000 gateway_settings no_cache Fetch_failed]
        expired_token_unauthenticated [of "rs_token 3999" _ 3999 4000 gateway_settings no_cache "Fetched key_set"]
  by (simp add: token_inputs is_local_token_def fetch_jwks_def get_signing_key_def)

text \<open>
  C8 as stated fails on the asymmetric path: with no usable cache and a failing fetch, an
  expired token is answered with status 500, not 401.
\<close>

theorem expired_rs256_token_counterexample:
  "p_exp (payload_until 3999) = Some 3999 \<and> (3999::int) < 4000 \<and>
   fst (validate_token gateway_settings no_cache 4000 Fetch_failed (rs_token 3999)) =
     Inl (HTTPException 500 (Internal_validation_error Jwks_fetch_failed) []) \<and>
   \<not> fails_with 401 (fst (validate_token gateway_settings no_cache 4000 Fetch_failed (rs_token 3999)))"
  by (simp add: token_inputs validate_defs fails_with_def)

text \<open>The concrete tokens are accepted while unexpired; a \<open>kid\<close> that the key set lacks
  gives status 500, the 401 raised for it being caught by the last clause.\<close>

lemma valid_rs256_token_accepted:
  "\<exists>c. fst (validate_token gateway_settings (cached_at 3000) 4000 Fetch_failed
            (rs_token 5000)) = Inr c"
  by (simp add: token_inputs validate_defs)

lemma valid_hs256_token_accepted:
  "\<exists>c. fst (validate_token gateway_settings no_cache 4000 Fetch_failed
            (hs_token ''secret'' 5000)) = Inr c"
  by (simp add: token_inputs validate_defs)

lemma unknown_kid_gives_500:
  "fst (validate_token gateway_settings (cached_at 3000) 4000 Fetch_failed
          (Token \<lparr>jwt_alg = Some ''RS256'', jwt_kid = Some ''zz'', jwt_signed_with = ''PEM1'',
                  jwt_payload = payload_until 3999\<rparr>)) =
     Inl (HTTPException 500 (Internal_validation_error Caught_signing_key_not_found) [])"
  by (simp add: token_inputs validate_defs)

subsection \<open>Forwarding: normalisation of usage\<close>

lemma normalize_usage_omitted:
  "map_of d ''usage'' = None \<Longrightarrow> normalize_usage f d = zero_usage"
  by (simp add: normalize_usage_def json_get_def json_or_def zero_usage_def)

lemma normalize_usage_prompt:
  "upstream_usage_field d ''prompt_tokens'' = None \<Longrightarrow> prompt_tokens (normalize_usage f d) = 0"
  by (auto simp: normalize_usage_def upstream_usage_field_def json_get_def json_or_def zero_usage_def
      split: option.splits json.splits)

lemma normalize_usage_completion:
  "upstream_usage_field d ''completion_tokens'' = None \<Longrightarrow>
   completion_tokens (normalize_usage f d) = 0"
  by (auto simp: normalize_usage_def upstream_usage_field_def json_get_def json_or_def zero_usage_def
      split: option.splits json.splits)

lemma normalize_usage_total:
  "omitted_or_falsy (upstream_usage_field d ''total_tokens'') \<Longrightarrow>
   total_tokens (normalize_usage f d) =
     prompt_tokens (normalize_usage f d) + completion_tokens (normalize_usage f d)"
  by (auto simp: normalize_usage_def upstream_usage_field_def omitted_or_falsy_def json_get_def
      json_or_def zero_usage_def split: option.splits json.splits)

lemma normalize_usage_ints:
  assumes "upstream_usage_field d ''prompt_tokens'' = Some (JInt p)"
    and "upstream_usage_field d ''completion_tokens'' = Some (JInt c)"
    and "upstream_usage_field d ''total_tokens'' = Some (JInt t)" and "t \<noteq> 0"
  shows "normalize_usage f d = \<lparr>prompt_tokens = p, completion_tokens = c, total_tokens = t\<rparr>"
proof -
  obtain u where u: "map_of d ''usage'' = Some (JObj u)"
    using assms(1) by (auto simp: upstream_usage_field_def split: option.splits json.splits)
  then have f: "map_of u ''prompt_tokens'' = Some (JInt p)"
    "map_of u ''completion_tokens'' = Some (JInt c)" "map_of u ''total_tokens'' = Some (JInt t)"
    using assms(1,2,3) by (simp_all add: upstream_usage_field_def)
  then have "u \<noteq> []"
    by auto
  then show ?thesis
    using u f assms(4) by (simp add: normalize_usage_def json_get_def json_or_def)
qed

lemma handle_reply_accepted:
  "handle_reply ext reply = Inr resp \<Longrightarrow>
   \<exists>code d. reply = Reply code (Some (JObj d)) \<and>
            resp_usage resp = Some (normalize_usage (int_of_str ext) d)"
  by (auto simp: handle_reply_def split: upstream_reply.splits option.splits json.splits if_splits)

lemma route_request_accepted:
  "fst (route_request ext cfg req ctx) = Inr resp \<Longrightarrow>
   \<exists>out. snd (route_request ext cfg req ctx) = Some out \<and>
         handle_reply ext (http_post ext (out_endpoint out) req (out_headers out)) = Inr resp"
  by (auto simp: route_request_def Let_def split: if_splits option.splits)

text \<open>
  C3 (amended). When \<open>route_request\<close> returns a response, the upstream answered with a JSON
  object and the response carries an integer usage triple in which \<open>prompt_tokens\<close> and
  \<open>completion_tokens\<close> are 0 when the upstream left them out, \<open>total_tokens\<close> is the sum of
  the two when the upstream left it out or sent it falsy, and the triple is all zeros when the
  upstream sent no \<open>usage\<close> at all. Three integers sent by the upstream, the total not 0,
  are kept as sent.
\<close>

theorem forward_usage_triple:
  "fst (route_request ext cfg req ctx) = Inr resp \<Longrightarrow>
   \<exists>out code d u.
     snd (route_request ext cfg req ctx) = Some out \<and>
     http_post ext (out_endpoint out) req (out_headers out) = Reply code (Some (JObj d)) \<and>
     resp_usage resp = Some u \<and>
     (map_of d ''usage'' = None \<longrightarrow> u = zero_usage) \<and>
     (upstream_usage_field d ''prompt_tokens'' = None \<longrightarrow> prompt_tokens u = 0) \<and>
     (upstream_usage_field d ''completion_tokens'' = None \<longrightarrow> completion_tokens u = 0) \<and>
     (omitted_or_falsy (upstream_usage_field d ''total_tokens'') \<longrightarrow>
        total_tokens u = prompt_tokens u + completion_tokens u) \<and>
     (\<forall>p c t. upstream_usage_field d ''prompt_tokens'' = Some (JInt p) \<and>
        upstream_usage_field d ''completion_tokens'' = Some (JInt c) \<and>
        upstream_usage_field d ''total_tokens'' = Some (JInt t) \<and> t \<noteq> 0 \<longrightarrow>
        u = \<lparr>prompt_tokens = p, completion_tokens = c, total_tokens = t\<rparr>)"
proof -
  assume a: "fst (route_request ext cfg req ctx) = Inr resp"
  from route_request_accepted [OF a] obtain out where
    out: "snd (route_request ext cfg req ctx) = Some out" and
    h: "handle_reply ext (http_post ext (out_endpoint out) req (out_headers out)) = Inr resp"
    by blast
  from handle_reply_accepted [OF h] obtain code d where
    r: "http_post ext (out_endpoint out) req (out_headers out) = Reply code (Some (JObj d))" and
    u: "resp_usage resp = Some (normalize_usage (int_of_str ext) d)"
    by blast
  have "\<forall>p c t. upstream_usage_field d ''prompt_tokens'' = Some (JInt p) \<and>
        upstream_usage_field d ''completion_tokens'' = Some (JInt c) \<and>
        upstream_usage_field d ''total_tokens'' = Some (JInt t) \<and> t \<noteq> 0 \<longrightarrow>
        normalize_usage (int_of_str ext) d =
          \<lparr>prompt_tokens = p, completion_tokens = c, total_tokens = t\<rparr>"
    using normalize_usage_ints by blast
  then show ?thesis
    using out r u normalize_usage_omitted normalize_usage_prompt normalize_usage_completion
      normalize_usage_total
    by blast
qed

lemmas forward_inputs = gpt4_entry_def one_model_def hello_def answer_with_def
  upstream_answering_def completion_body_def inconsistent_usage_def empty_entry_def

lemmas forward_defs = route_request_def handle_reply_def normalize_usage_def get_model_config_def
  entry_is_empty_def check_access_def get_access_control_def build_headers_def json_get_def
  json_or_def auth_header_of_def auth_prefix_of_def header_value_of_def ends_with_def
  zero_usage_def has_required_fields_def required_fields_def typed_fields_def as_str_def
  as_int_def as_dicts_def

lemma forward_no_usage:
  "fst (route_request (upstream_answering (JObj (completion_body []))) one_model
          (hello ''gpt-4'') ctx) =
     Inr (answer_with \<lparr>prompt_tokens = 0, completion_tokens = 0, total_tokens = 0\<rparr>)"
  by (simp add: forward_inputs forward_defs Let_def)

theorem forward_usage_triple_witness:
  "fst (route_request (upstream_answering (JObj (completion_body []))) one_model
          (hello ''gpt-4'') alice) =
     Inr (answer_with \<lparr>prompt_tokens = 0, completion_tokens = 0, total_tokens = 0\<rparr>) \<and>
   map_of (completion_body []) ''usage'' = None \<and>
   resp_usage (answer_with \<lparr>prompt_tokens = 0, completion_tokens = 0, total_tokens = 0\<rparr>) =
     Some zero_usage"
proof -
  let ?ext = "upstream_answering (JObj (completion_body []))"
  let ?resp = "answer_with \<lparr>prompt_tokens = 0, completion_tokens = 0, total_tokens = 0\<rparr>"
  note h = forward_no_usage [of alice]
  from forward_usage_triple [OF h] obtain out :: outbound and code d u where
    p: "http_post ?ext (out_endpoint out) (hello ''gpt-4'') (out_headers out) =
          Reply code (Some (JObj d))" and
    q: "resp_usage ?resp = Some u" and
    z: "map_of d ''usage'' = None \<longrightarrow> u = zero_usage"
    by (elim exE conjE) (rule that, assumption, assumption, assumption)
  have n: "map_of (completion_body []) ''usage'' = None"
    by (simp add: completion_body_def)
  from p have "d = completion_body []"
    by (simp add: upstream_answering_def)
  with z n have "u = zero_usage"
    by simp
  with q h n show ?thesis
    by simp
qed

text \<open>
  C3 as stated fails: a \<open>total_tokens\<close> that the upstream sends is kept, also when it is not
  the sum of the other two fields. The body is a complete completion, which the response
  model accepts.
\<close>

theorem forward_total_counterexample:
  "fst (route_request (upstream_answering (JObj (completion_body inconsistent_usage))) one_model
          (hello ''gpt-4'') alice) =
     Inr (answer_with \<lparr>prompt_tokens = 10, completion_tokens = 15, total_tokens = 100\<rparr>) \<and>
   resp_usage (answer_with \<lparr>prompt_tokens = 10, completion_tokens = 15, total_tokens = 100\<rparr>) =
     Some \<lparr>prompt_tokens = 10, completion_tokens = 15, total_tokens = 100\<rparr> \<and>
   (100 :: int) \<noteq> 10 + 15"
  by (simp add: forward_inputs forward_defs Let_def)

lemma incomplete_body_rejected:
  "fst (route_request (upstream_answering (JObj [(''id'', JStr ''chatcmpl-1'')])) one_model
          (hello ''gpt-4'') alice) = Inl (Http_error (HTTPException 500 Exception_text []))"
  by (simp add: forward_inputs forward_defs Let_def)

subsection \<open>The endpoint: unknown model\<close>

lemma map_of_dict_set: "map_of (dict_set k v kvs) = (map_of kvs)(k \<mapsto> v)"
  by (induction kvs) (auto simp: fun_eq_iff)

lemma effective_none:
  "map_of (models cfg) m = None \<Longrightarrow> \<not> truthy (header_api_key hs) \<Longrightarrow>
   \<not> truthy (env_api_key strip env) \<Longrightarrow> \<not> truthy (effective_api_key strip env hs cfg m)"
  by (simp add: effective_api_key_def py_or_def get_model_config_def cfg_api_key_def
      empty_entry_def truthy_def)

lemma bind_api_key_unbound:
  "\<not> truthy (effective_api_key strip env hs cfg m) \<Longrightarrow> bind_api_key strip env hs cfg m = cfg"
  by (simp add: bind_api_key_def)

lemma route_request_unknown_model:
  "map_of (models cfg) (model req) = None \<Longrightarrow>
   route_request ext cfg req ctx =
     (Inl (Http_error (HTTPException 404 (Model_not_found (model req)) [])), None)"
  by (simp add: route_request_def get_model_config_def entry_is_empty_def empty_entry_def)

lemma check_rate_limit_passed:
  "fst (check_rate_limit (Connected s) now ctx m limit 60) = Inr b \<Longrightarrow>
   commands_of (snd (check_rate_limit (Connected s) now ctx m limit 60)) =
     commands s @ [GET (rate_key m (user_id ctx)), INCR (rate_key m (user_id ctx)),
                   EXPIRE (rate_key m (user_id ctx)) 60] \<and>
   counter_at (snd (check_rate_limit (Connected s) now ctx m limit 60)) (rate_key m (user_id ctx)) =
     Some \<lparr>counter_value = value_after_incr (entries s (rate_key m (user_id ctx))),
           expiry = Some 60\<rparr>"
  by (auto simp: check_rate_limit_def redis_get_def redis_ttl_def redis_incr_def redis_expire_def
        counter_at_def commands_of_def value_after_incr_def Let_def
        split: option.splits if_splits)

text \<open>The table keeps having no entry for a model as long as no request for that model comes
  with a credential; the access rules are never written.\<close>

lemma bind_keeps_no_entry:
  assumes "map_of (models cfg) m = None"
    and "m' \<noteq> m \<or> (\<not> truthy (header_api_key hs) \<and> \<not> truthy (env_api_key strip env))"
  shows "map_of (models (bind_api_key strip env hs cfg m')) m = None"
proof (cases "m' = m")
  case True
  then show ?thesis
    using assms bind_api_key_unbound effective_none by metis
next
  case False
  then show ?thesis
    using assms(1) by (simp add: bind_api_key_def map_of_dict_set Let_def)
qed

lemma access_control_bind: "access_control (bind_api_key strip env hs cfg m) = access_control cfg"
  by (simp add: bind_api_key_def Let_def)

lemma config_after_cases:
  "config_after (chat_completions ext env now cfg r hs req ctx) = cfg \<or>
   config_after (chat_completions ext env now cfg r hs req ctx) =
     bind_api_key (str_strip ext) env hs cfg (model req)"
  by (auto simp: chat_completions_def Let_def split: prod.splits sum.splits raised.splits)

lemma handle_call_keeps_no_entry:
  assumes "map_of (models cfg) m = None"
    and "model (call_request c) \<noteq> m \<or>
         (\<not> truthy (header_api_key (call_headers c)) \<and> \<not> truthy (env_api_key (str_strip ext) env))"
  shows "map_of (models (config_after (handle_call ext env cfg r c))) m = None"
  using config_after_cases [of ext env "call_now c" cfg r "call_headers c" "call_request c" "call_ctx c"]
    bind_keeps_no_entry [OF assms] assms(1)
  by (auto simp: handle_call_def)

lemma handle_call_access_control:
  "access_control (config_after (handle_call ext env cfg r c)) = access_control cfg"
  using config_after_cases [of ext env "call_now c" cfg r "call_headers c" "call_request c" "call_ctx c"]
  by (auto simp: handle_call_def access_control_bind)

lemma serve_keeps_no_entry:
  "map_of (models cfg) m = None \<Longrightarrow> \<not> truthy (env_api_key (str_strip ext) env) \<Longrightarrow>
   \<forall>c \<in> set calls. model (call_request c) \<noteq> m \<or> \<not> truthy (header_api_key (call_headers c)) \<Longrightarrow>
   map_of (models (fst (serve ext env cfg r calls))) m = None"
proof (induction calls arbitrary: cfg r)
  case Nil
  then show ?case by simp
next
  case (Cons c cs)
  have "map_of (models (config_after (handle_call ext env cfg r c))) m = None"
    using handle_call_keeps_no_entry [of cfg m c ext env r] Cons.prems by auto
  then show ?case
    using Cons.IH Cons.prems(2,3) by simp
qed

lemma serve_access_control:
  "access_control (fst (serve ext env cfg r calls)) = access_control cfg"
  by (induction calls arbitrary: cfg r) (simp_all add: handle_call_access_control)

lemma check_access_same_rules:
  "access_control cfg' = access_control cfg \<Longrightarrow>
   check_access lower cfg' ctx m = check_access lower cfg ctx m"
  by (simp add: check_access_def get_access_control_def)

text \<open>
  C1 (amended). A request names a model that the loaded table has no entry for; the gateway
  has no credential of its own, and neither this request nor an earlier request for that model
  carried a credential header. When the access check allows the request and the quota check
  passes, the handler fails with status 404 (model not found) and posts nothing upstream; the
  model is looked up only after the quota check, so on a reachable store the counter of the
  request's key has by then been read and the \<open>INCR\<close>/\<open>EXPIRE\<close> pair issued: the counter is
  one more than before (unless it held the largest value the store counts to) and expires in
  60 seconds.
\<close>

theorem unknown_model_after_quota:
  "map_of (models cfg0) (model req) = None \<Longrightarrow>
   \<not> truthy (env_api_key (str_strip ext) env) \<Longrightarrow>
   \<forall>c \<in> set earlier. model (call_request c) \<noteq> model req \<or>
                     \<not> truthy (header_api_key (call_headers c)) \<Longrightarrow>
   serve ext env cfg0 r0 earlier = (cfg, r) \<Longrightarrow>
   \<not> truthy (header_api_key hs) \<Longrightarrow>
   check_access (str_lower ext) cfg ctx (model req) \<Longrightarrow>
   fst (check_rate_limit r now ctx (model req) (rate_limit_for cfg req ctx) 60) = Inr b \<Longrightarrow>
   result (chat_completions ext env now cfg r hs req ctx) =
     Inl (HTTPException 404 (Model_not_found (model req)) []) \<and>
   forwarded (chat_completions ext env now cfg r hs req ctx) = None \<and>
   redis_after (chat_completions ext env now cfg r hs req ctx) =
     snd (check_rate_limit r now ctx (model req) (rate_limit_for cfg req ctx) 60) \<and>
   (\<forall>s. r = Connected s \<longrightarrow>
      commands_of (redis_after (chat_completions ext env now cfg r hs req ctx)) =
        commands s @ [GET (rate_key (model req) (user_id ctx)),
                      INCR (rate_key (model req) (user_id ctx)),
                      EXPIRE (rate_key (model req) (user_id ctx)) 60] \<and>
      counter_at (redis_after (chat_completions ext env now cfg r hs req ctx))
          (rate_key (model req) (user_id ctx)) =
        Some \<lparr>counter_value = value_after_incr (entries s (rate_key (model req) (user_id ctx))),
              expiry = Some 60\<rparr>)"
proof -
  assume m0: "map_of (models cfg0) (model req) = None"
    and e: "\<not> truthy (env_api_key (str_strip ext) env)"
    and hist: "\<forall>c \<in> set earlier. model (call_request c) \<noteq> model req \<or>
                     \<not> truthy (header_api_key (call_headers c))"
    and sv: "serve ext env cfg0 r0 earlier = (cfg, r)"
    and h: "\<not> truthy (header_api_key hs)"
    and a: "check_access (str_lower ext) cfg ctx (model req)"
    and q: "fst (check_rate_limit r now ctx (model req) (rate_limit_for cfg req ctx) 60) = Inr b"
  have m: "map_of (models cfg) (model req) = None"
    using serve_keeps_no_entry [OF m0 e hist, of r0] sv by simp
  have b: "bind_api_key (str_strip ext) env hs cfg (model req) = cfg"
    using bind_api_key_unbound effective_none [OF m h e] by blast
  obtain r' where c: "check_rate_limit r now ctx (model req) (rate_limit_for cfg req ctx) 60 = (Inr b, r')"
    using q by (cases "check_rate_limit r now ctx (model req) (rate_limit_for cfg req ctx) 60") simp
  have 1: "chat_completions ext env now cfg r hs req ctx =
     \<lparr>result = Inl (HTTPException 404 (Model_not_found (model req)) []), config_after = cfg,
      redis_after = r', forwarded = None\<rparr>"
    using a by (simp add: chat_completions_def c b route_request_unknown_model [OF m])
  show ?thesis
  proof (intro conjI allI impI)
    fix s assume s: "r = Connected s"
    have "fst (check_rate_limit (Connected s) now ctx (model req) (rate_limit_for cfg req ctx) 60) = Inr b"
      using q s by simp
    from check_rate_limit_passed [OF this]
    show "commands_of (redis_after (chat_completions ext env now cfg r hs req ctx)) =
        commands s @ [GET (rate_key (model req) (user_id ctx)),
                      INCR (rate_key (model req) (user_id ctx)),
                      EXPIRE (rate_key (model req) (user_id ctx)) 60]"
      and "counter_at (redis_after (chat_completions ext env now cfg r hs req ctx))
          (rate_key (model req) (user_id ctx)) =
        Some \<lparr>counter_value = value_after_incr (entries s (rate_key (model req) (user_id ctx))),
              expiry = Some 60\<rparr>"
      using 1 c s by simp_all
  qed (simp_all add: 1 c)
qed

lemmas endpoint_inputs = no_models_def bare_env_def env_with_key_def alice_def empty_store_def
  gateway_def

lemmas endpoint_defs = chat_completions_def rate_limit_for_def get_rate_limits_def
  bind_api_key_def effective_api_key_def header_api_key_def api_key_header_names_def
  env_api_key_def env_value_def dotenv_lookup_def cfg_api_key_def headers_get_def py_or_def
  truthy_def check_rate_limit_def redis_get_def redis_ttl_def redis_incr_def redis_expire_def
  rate_key_def

text \<open>
  C1 as stated fails: the request for the unknown model \<open>gpt-x\<close> is answered with status 404
  after the limiter has read the counter of its key and incremented it from absent to 1.
\<close>

theorem unknown_model_reaches_quota_counterexample:
  "map_of (models no_models) (model (hello ''gpt-x'')) = None \<and>
   result (chat_completions gateway bare_env 1000 no_models
             (Connected empty_store) [] (hello ''gpt-x'') alice) =
     Inl (HTTPException 404 (Model_not_found ''gpt-x'') []) \<and>
   commands_of (redis_after (chat_completions gateway bare_env 1000 no_models
             (Connected empty_store) [] (hello ''gpt-x'') alice)) =
     [GET ''ratelimit:gpt-x:alice'', INCR ''ratelimit:gpt-x:alice'',
      EXPIRE ''ratelimit:gpt-x:alice'' 60] \<and>
   counter_at (Connected empty_store) ''ratelimit:gpt-x:alice'' = None \<and>
   counter_at (redis_after (chat_completions gateway bare_env 1000 no_models
             (Connected empty_store) [] (hello ''gpt-x'') alice)) ''ratelimit:gpt-x:alice'' =
     Some \<lparr>counter_value = 1, expiry = Some 60\<rparr>"
  by (simp add: endpoint_inputs endpoint_defs forward_inputs forward_defs commands_of_def
        counter_at_def Let_def)

lemma header_api_key_none: "header_api_key [] = None"
  by (simp add: header_api_key_def api_key_header_names_def headers_get_def truthy_def)

lemma header_api_key_caller: "header_api_key caller_headers = Some ''sk-caller''"
  by (simp add: header_api_key_def api_key_header_names_def headers_get_def truthy_def
      caller_headers_def ascii_lower_def char_lower_def upper_to_lower_def)

lemma env_api_key_env: "env_api_key strip env_with_key = Some ''sk-env''"
  by (simp add: env_api_key_def env_value_def py_or_def truthy_def env_with_key_def bare_env_def)

lemma env_api_key_bare: "env_api_key strip bare_env = None"
  by (simp add: env_api_key_def env_value_def py_or_def truthy_def dotenv_lookup_def bare_env_def)

lemma serve_unreachable: "snd (serve ext env cfg Unreachable calls) = Unreachable"
proof (induction calls arbitrary: cfg)
  case Nil
  then show ?case by simp
next
  case (Cons c cs)
  have "redis_after (handle_call ext env cfg Unreachable c) = Unreachable"
    by (auto simp: handle_call_def chat_completions_def check_rate_limit_def Let_def
        split: prod.splits sum.splits raised.splits)
  then show ?case
    using Cons.IH by simp
qed

theorem unknown_model_after_quota_witness:
  "map_of (models no_models) (model (hello ''gpt-x'')) = None \<and>
   \<not> truthy (env_api_key (str_strip gateway) bare_env) \<and>
   serve gateway bare_env no_models (Connected empty_store) [] = (no_models, Connected empty_store) \<and>
   \<not> truthy (header_api_key []) \<and>
   check_access (str_lower gateway) no_models alice (model (hello ''gpt-x'')) \<and>
   fst (check_rate_limit (Connected empty_store) 1000 alice (model (hello ''gpt-x''))
          (rate_limit_for no_models (hello ''gpt-x'') alice) 60) = Inr True \<and>
   result (chat_completions gateway bare_env 1000 no_models
             (Connected empty_store) [] (hello ''gpt-x'') alice) =
     Inl (HTTPException 404 (Model_not_found ''gpt-x'') []) \<and>
   commands_of (redis_after (chat_completions gateway bare_env 1000 no_models
             (Connected empty_store) [] (hello ''gpt-x'') alice)) =
     [GET ''ratelimit:gpt-x:alice'', INCR ''ratelimit:gpt-x:alice'',
      EXPIRE ''ratelimit:gpt-x:alice'' 60] \<and>
   map_of (models one_model) (model (hello ''gpt-x'')) = None \<and>
   model (call_request first_call) = ''gpt-4'' \<and>
   result (chat_completions gateway bare_env 1060
             (fst (serve gateway bare_env one_model Unreachable [first_call]))
             (snd (serve gateway bare_env one_model Unreachable [first_call]))
             [] (hello ''gpt-x'') alice) =
     Inl (HTTPException 404 (Model_not_found ''gpt-x'') [])"
proof -
  have 1: "map_of (models no_models) (model (hello ''gpt-x'')) = None"
    by (simp add: no_models_def)
  have 2: "\<not> truthy (env_api_key (str_strip gateway) bare_env)"
    by (simp add: env_api_key_bare truthy_def)
  have 3: "\<forall>c \<in> set []. model (call_request c) \<noteq> model (hello ''gpt-x'') \<or>
                     \<not> truthy (header_api_key (call_headers c))"
    by simp
  have 4: "serve gateway bare_env no_models (Connected empty_store) [] =
      (no_models, Connected empty_store)"
    by simp
  have 5: "\<not> truthy (header_api_key [])"
    by (simp add: header_api_key_none truthy_def)
  have 6: "check_access (str_lower gateway) no_models alice (model (hello ''gpt-x''))"
    by (simp add: check_access_def get_access_control_def no_models_def)
  have 7: "fst (check_rate_limit (Connected empty_store) 1000 alice (model (hello ''gpt-x''))
          (rate_limit_for no_models (hello ''gpt-x'') alice) 60) = Inr True"
    by (simp add: limiter_defs rate_limit_for_def get_rate_limits_def
        get_model_config_def empty_entry_def no_models_def empty_store_def alice_def)
  note t = unknown_model_after_quota [OF 1 2 3 4 5 6 7]
  have 8: "result (chat_completions gateway bare_env 1000 no_models
             (Connected empty_store) [] (hello ''gpt-x'') alice) =
     Inl (HTTPException 404 (Model_not_found ''gpt-x'') [])"
    using t [THEN conjunct1] by (simp add: hello_def)
  have 9: "commands_of (redis_after (chat_completions gateway bare_env 1000
             no_models (Connected empty_store) [] (hello ''gpt-x'') alice)) =
     [GET ''ratelimit:gpt-x:alice'', INCR ''ratelimit:gpt-x:alice'',
      EXPIRE ''ratelimit:gpt-x:alice'' 60]"
    using t [THEN conjunct2, THEN conjunct2, THEN conjunct2]
    by (simp add: hello_def alice_def rate_key_def empty_store_def)
  have 10: "map_of (models one_model) (model (hello ''gpt-x'')) = None"
    by (simp add: one_model_def hello_def)
  have 11: "\<forall>c \<in> set [first_call]. model (call_request c) \<noteq> model (hello ''gpt-x'') \<or>
                     \<not> truthy (header_api_key (call_headers c))"
    by (simp add: first_call_def hello_def)
  have 16: "model (call_request first_call) = ''gpt-4''"
    by (simp add: first_call_def hello_def)
  have 12: "serve gateway bare_env one_model Unreachable [first_call] =
      (fst (serve gateway bare_env one_model Unreachable [first_call]),
       snd (serve gateway bare_env one_model Unreachable [first_call]))"
    by simp
  have 13: "check_access (str_lower gateway)
      (fst (serve gateway bare_env one_model Unreachable [first_call])) alice
      (model (hello ''gpt-x''))"
  proof -
    have "access_control (fst (serve gateway bare_env one_model Unreachable [first_call])) = []"
      unfolding serve_access_control by (simp add: one_model_def)
    then show ?thesis
      unfolding check_access_def get_access_control_def by simp
  qed
  have 14: "fst (check_rate_limit (snd (serve gateway bare_env one_model Unreachable [first_call]))
      1060 alice (model (hello ''gpt-x''))
      (rate_limit_for (fst (serve gateway bare_env one_model Unreachable [first_call]))
         (hello ''gpt-x'') alice) 60) = Inr True"
    unfolding serve_unreachable by (simp add: check_rate_limit_def)
  have 15: "result (chat_completions gateway bare_env 1060
             (fst (serve gateway bare_env one_model Unreachable [first_call]))
             (snd (serve gateway bare_env one_model Unreachable [first_call]))
             [] (hello ''gpt-x'') alice) =
     Inl (HTTPException 404 (Model_not_found ''gpt-x'') [])"
    using unknown_model_after_quota [OF 10 2 11 12 5 13 14, THEN conjunct1]
    by (simp add: hello_def)
  show ?thesis
    using 1 2 4 5 6 7 8 9 10 16 15 by blast
qed

subsection \<open>The endpoint: credential resolution\<close>

lemma cfg_api_key_plain:
  "api_key e = Some k \<Longrightarrow> \<not> starts_with ''${'' k \<Longrightarrow> cfg_api_key strip env e = Some k"
  by (simp add: cfg_api_key_def)

lemma effective_priority:
  "effective_api_key strip env hs cfg m =
     (if truthy (header_api_key hs) then header_api_key hs
      else if truthy (env_api_key strip env) then env_api_key strip env
      else cfg_api_key strip env (get_model_config cfg m))"
  by (simp add: effective_api_key_def py_or_def)

lemma get_model_config_bound:
  "effective_api_key strip env hs cfg m = Some key \<Longrightarrow> key \<noteq> [] \<Longrightarrow>
   get_model_config (bind_api_key strip env hs cfg m) m =
     (get_model_config cfg m)\<lparr>api_key := Some key,
        api_key_source := Some (if truthy (header_api_key hs) then ''header'' else ''env'')\<rparr>"
  by (simp add: bind_api_key_def get_model_config_def map_of_dict_set truthy_def Let_def
      split: option.splits)

lemma route_request_posted:
  "snd (route_request ext cfg req ctx) = Some out \<Longrightarrow>
   out_headers out = build_headers (get_model_config cfg (model req))"
  by (auto simp: route_request_def Let_def split: if_splits option.splits)

lemma chat_completions_forwarded:
  "forwarded (chat_completions ext env now cfg r hs req ctx) = Some out \<Longrightarrow>
   snd (route_request ext (bind_api_key (str_strip ext) env hs cfg (model req)) req ctx) = Some out"
  by (auto simp: chat_completions_def Let_def
      split: if_splits prod.splits sum.splits raised.splits)

lemma build_headers_injects:
  "api_key mc = Some key \<Longrightarrow> key \<noteq> [] \<Longrightarrow>
   map_of (build_headers mc) (auth_header_of mc) = Some (header_value_of (auth_prefix_of mc) key)"
  by (simp add: build_headers_def map_of_dict_set)

text \<open>For every request that is forwarded, the key the handler resolved is the one the
  outbound request carries.\<close>

lemma forwarded_injects_effective:
  assumes "forwarded (chat_completions ext env now cfg r hs req ctx) = Some out"
    and "effective_api_key (str_strip ext) env hs cfg (model req) = Some key" and "key \<noteq> []"
  shows "injected out (get_model_config cfg (model req)) key"
proof -
  let ?mc = "get_model_config (bind_api_key (str_strip ext) env hs cfg (model req)) (model req)"
  have "out_headers out = build_headers ?mc"
    using assms(1) chat_completions_forwarded route_request_posted by blast
  moreover have "api_key ?mc = Some key"
    "auth_header_of ?mc = auth_header_of (get_model_config cfg (model req))"
    "auth_prefix_of ?mc = auth_prefix_of (get_model_config cfg (model req))"
    using get_model_config_bound [OF assms(2,3)]
    by (simp_all add: auth_header_of_def auth_prefix_of_def)
  ultimately show ?thesis
    using build_headers_injects [of ?mc key] assms(3) by (simp add: injected_def)
qed

lemma check_access_bind:
  "check_access lower (bind_api_key strip env hs cfg m) ctx m' = check_access lower cfg ctx m'"
  by (simp add: check_access_def get_access_control_def access_control_bind)

lemma chat_completions_passed:
  assumes "check_access (str_lower ext) cfg ctx (model req)"
    and "fst (check_rate_limit r now ctx (model req) (rate_limit_for cfg req ctx) 60) = Inr b"
  shows "forwarded (chat_completions ext env now cfg r hs req ctx) =
         snd (route_request ext (bind_api_key (str_strip ext) env hs cfg (model req)) req ctx)"
    and "config_after (chat_completions ext env now cfg r hs req ctx) =
         bind_api_key (str_strip ext) env hs cfg (model req)"
proof -
  obtain r' where c: "check_rate_limit r now ctx (model req) (rate_limit_for cfg req ctx) 60 = (Inr b, r')"
    using assms(2)
    by (cases "check_rate_limit r now ctx (model req) (rate_limit_for cfg req ctx) 60") simp
  obtain res out where rr:
    "route_request ext (bind_api_key (str_strip ext) env hs cfg (model req)) req ctx = (res, out)"
    by (cases "route_request ext (bind_api_key (str_strip ext) env hs cfg (model req)) req ctx")
  show "forwarded (chat_completions ext env now cfg r hs req ctx) =
         snd (route_request ext (bind_api_key (str_strip ext) env hs cfg (model req)) req ctx)"
    using assms(1)
    by (simp add: chat_completions_def c rr Let_def split: sum.splits raised.splits)
  show "config_after (chat_completions ext env now cfg r hs req ctx) =
         bind_api_key (str_strip ext) env hs cfg (model req)"
    using assms(1)
    by (simp add: chat_completions_def c rr Let_def split: sum.splits raised.splits)
qed

text \<open>A request for \<open>gpt-4\<close> on a table whose entry for it is the configured one but for the
  key: what is posted, and what the table holds afterwards.\<close>

lemma gpt4_request:
  assumes rules: "access_control cfg = []"
    and entry: "get_model_config cfg ''gpt-4'' = gpt4_entry\<lparr>api_key := k0, api_key_source := src\<rparr>"
    and eff: "effective_api_key (str_strip ext) env hs cfg ''gpt-4'' = Some key" and ne: "key \<noteq> []"
  shows "forwarded (chat_completions ext env now cfg Unreachable hs (hello ''gpt-4'') ctx) =
           Some (posted_with (''Bearer '' @ key))"
    and "get_model_config
           (config_after (chat_completions ext env now cfg Unreachable hs (hello ''gpt-4'') ctx))
           ''gpt-4'' =
         gpt4_entry\<lparr>api_key := Some key,
           api_key_source := Some (if truthy (header_api_key hs) then ''header'' else ''env'')\<rparr>"
    and "access_control
           (config_after (chat_completions ext env now cfg Unreachable hs (hello ''gpt-4'') ctx)) = []"
proof -
  let ?cfg = "bind_api_key (str_strip ext) env hs cfg ''gpt-4''"
  have m: "model (hello ''gpt-4'') = ''gpt-4''"
    by (simp add: hello_def)
  have acc: "check_access (str_lower ext) cfg ctx (model (hello ''gpt-4''))"
    using rules by (simp add: check_access_def get_access_control_def)
  have q: "fst (check_rate_limit Unreachable now ctx (model (hello ''gpt-4''))
      (rate_limit_for cfg (hello ''gpt-4'') ctx) 60) = Inr True"
    by (simp add: check_rate_limit_def)
  have mc: "get_model_config ?cfg ''gpt-4'' =
      gpt4_entry\<lparr>api_key := Some key,
        api_key_source := Some (if truthy (header_api_key hs) then ''header'' else ''env'')\<rparr>"
    using get_model_config_bound [OF eff ne] by (simp add: entry)
  have acc': "check_access (str_lower ext) ?cfg ctx ''gpt-4''"
    using acc by (simp add: check_access_bind m)
  have rr: "snd (route_request ext ?cfg (hello ''gpt-4'') ctx) =
      Some (posted_with (''Bearer '' @ key))"
    unfolding route_request_def m Let_def mc
    by (simp add: acc' entry_is_empty_def gpt4_entry_def empty_entry_def build_headers_def
        auth_header_of_def auth_prefix_of_def header_value_of_def ends_with_def posted_with_def ne)
  show "forwarded (chat_completions ext env now cfg Unreachable hs (hello ''gpt-4'') ctx) =
           Some (posted_with (''Bearer '' @ key))"
    using chat_completions_passed(1) [OF acc q] rr by (simp add: m)
  have ca: "config_after (chat_completions ext env now cfg Unreachable hs (hello ''gpt-4'') ctx) = ?cfg"
    using chat_completions_passed(2) [OF acc q] by (simp add: m)
  show "get_model_config
           (config_after (chat_completions ext env now cfg Unreachable hs (hello ''gpt-4'') ctx))
           ''gpt-4'' =
         gpt4_entry\<lparr>api_key := Some key,
           api_key_source := Some (if truthy (header_api_key hs) then ''header'' else ''env'')\<rparr>"
    using ca mc by simp
  show "access_control
           (config_after (chat_completions ext env now cfg Unreachable hs (hello ''gpt-4'') ctx)) = []"
    using ca rules by (simp add: access_control_bind)
qed

lemma one_model_entry:
  "get_model_config one_model ''gpt-4'' =
     gpt4_entry\<lparr>api_key := Some ''sk-config'', api_key_source := None\<rparr>"
  "access_control one_model = []"
  by (simp_all add: get_model_config_def one_model_def gpt4_entry_def empty_entry_def)

text \<open>The three sources in order, each on the loaded table.\<close>

lemma priority_on_loaded_table:
  "forwarded (chat_completions gateway env_with_key 1000 one_model Unreachable caller_headers
      (hello ''gpt-4'') alice) = Some (posted_with ''Bearer sk-caller'')"
  "forwarded (chat_completions gateway env_with_key 1000 one_model Unreachable []
      (hello ''gpt-4'') alice) = Some (posted_with ''Bearer sk-env'')"
  "forwarded (chat_completions gateway bare_env 1000 one_model Unreachable []
      (hello ''gpt-4'') alice) = Some (posted_with ''Bearer sk-config'')"
proof -
  have c: "cfg_api_key strip env (get_model_config one_model ''gpt-4'') = Some ''sk-config''" for strip env
    by (rule cfg_api_key_plain) (simp_all add: one_model_entry starts_with_def)
  show "forwarded (chat_completions gateway env_with_key 1000 one_model Unreachable caller_headers
      (hello ''gpt-4'') alice) = Some (posted_with ''Bearer sk-caller'')"
    using gpt4_request(1) [OF one_model_entry(2) one_model_entry(1), where key = "''sk-caller''"
        and hs = caller_headers]
    by (simp add: effective_priority header_api_key_caller truthy_def)
  show "forwarded (chat_completions gateway env_with_key 1000 one_model Unreachable []
      (hello ''gpt-4'') alice) = Some (posted_with ''Bearer sk-env'')"
    using gpt4_request(1) [OF one_model_entry(2) one_model_entry(1), where key = "''sk-env''"
        and hs = "[]" and env = env_with_key]
    by (simp add: effective_priority header_api_key_none env_api_key_env truthy_def)
  show "forwarded (chat_completions gateway bare_env 1000 one_model Unreachable []
      (hello ''gpt-4'') alice) = Some (posted_with ''Bearer sk-config'')"
    using gpt4_request(1) [OF one_model_entry(2) one_model_entry(1), where key = "''sk-config''"
        and hs = "[]" and env = bare_env]
    by (simp add: effective_priority header_api_key_none env_api_key_bare c truthy_def)
qed

text \<open>
  C9. The order header, process, configuration is what the handler computes, but the key it
  resolves is written into the shared table: after a request that carried the header key
  \<open>sk-caller\<close>, a request with no credential header, on a gateway without a credential of its
  own, is not sent with the configured key \<open>sk-config\<close> of the model but with \<open>sk-caller\<close>.
  On the loaded table the same request is sent with \<open>sk-config\<close>.
\<close>

theorem later_request_carries_earlier_callers_key:
  "api_key (get_model_config one_model ''gpt-4'') = Some ''sk-config'' \<and>
   header_api_key [] = None \<and> env_api_key (str_strip gateway) bare_env = None \<and>
   forwarded (chat_completions gateway bare_env 1060 one_model Unreachable []
      (hello ''gpt-4'') (user_with_roles [])) = Some (posted_with ''Bearer sk-config'') \<and>
   forwarded (chat_completions gateway bare_env 1060
      (fst (serve gateway bare_env one_model Unreachable [first_call]))
      (snd (serve gateway bare_env one_model Unreachable [first_call])) []
      (hello ''gpt-4'') (user_with_roles [])) = Some (posted_with ''Bearer sk-caller'')"
proof -
  let ?first = "chat_completions gateway bare_env 1000 one_model Unreachable caller_headers
      (hello ''gpt-4'') alice"
  have c: "cfg_api_key strip env (get_model_config one_model ''gpt-4'') = Some ''sk-config''" for strip env
    by (rule cfg_api_key_plain) (simp_all add: one_model_entry starts_with_def)
  have e1: "effective_api_key (str_strip gateway) bare_env caller_headers one_model ''gpt-4'' =
      Some ''sk-caller''"
    by (simp add: effective_priority header_api_key_caller truthy_def)
  note first = gpt4_request(2,3) [OF one_model_entry(2) one_model_entry(1) e1, of 1000 alice]
  have t: "serve gateway bare_env one_model Unreachable [first_call] =
      (config_after ?first, Unreachable)"
    using serve_unreachable [of gateway bare_env one_model "[first_call]"]
    by (simp add: handle_call_def first_call_def)
  have entry: "get_model_config (config_after ?first) ''gpt-4'' =
      gpt4_entry\<lparr>api_key := Some ''sk-caller'', api_key_source := Some ''header''\<rparr>"
    using first(1) by (simp add: header_api_key_caller truthy_def)
  have rules: "access_control (config_after ?first) = []"
    using first(2) by simp
  have "cfg_api_key (str_strip gateway) bare_env (get_model_config (config_after ?first) ''gpt-4'') =
      Some ''sk-caller''"
    by (rule cfg_api_key_plain) (simp_all add: entry starts_with_def)
  then have e2: "effective_api_key (str_strip gateway) bare_env [] (config_after ?first) ''gpt-4'' =
      Some ''sk-caller''"
    by (simp add: effective_priority header_api_key_none env_api_key_bare truthy_def)
  have "forwarded (chat_completions gateway bare_env 1060 (config_after ?first) Unreachable []
      (hello ''gpt-4'') (user_with_roles [])) = Some (posted_with ''Bearer sk-caller'')"
    using gpt4_request(1) [OF rules entry e2] by simp
  then have 2: "forwarded (chat_completions gateway bare_env 1060
      (fst (serve gateway bare_env one_model Unreachable [first_call]))
      (snd (serve gateway bare_env one_model Unreachable [first_call])) []
      (hello ''gpt-4'') (user_with_roles [])) = Some (posted_with ''Bearer sk-caller'')"
    unfolding t by simp
  have 1: "forwarded (chat_completions gateway bare_env 1060 one_model Unreachable []
      (hello ''gpt-4'') (user_with_roles [])) = Some (posted_with ''Bearer sk-config'')"
    using gpt4_request(1) [OF one_model_entry(2) one_model_entry(1), where key = "''sk-config''"
        and hs = "[]" and env = bare_env and ext = gateway]
    by (simp add: effective_priority header_api_key_none env_api_key_bare c truthy_def)
  show ?thesis
    using 1 2 by (simp add: one_model_entry header_api_key_none env_api_key_bare)
qed

lemma env_api_key_dotenv:
  "env_api_key ascii_strip
     (bare_env\<lparr>dotenv_lines := Some [''# keys'', ''OTHER=1'', '' OPENAI_API_KEY = sk-dotenv '']\<rparr>) =
   Some ''sk-dotenv''"
  by (simp add: env_api_key_def env_value_def dotenv_lookup_def py_or_def truthy_def bare_env_def
      ascii_strip_def strip_chars_def is_space_def starts_with_def Let_def)

lemma placeholder_resolved:
  "cfg_api_key ascii_strip (bare_env\<lparr>os_environ := [(''UPSTREAM_KEY'', ''sk-upstream'')]\<rparr>)
     (gpt4_entry\<lparr>api_key := Some ''${UPSTREAM_KEY}''\<rparr>) = Some ''sk-upstream''"
  by (simp add: cfg_api_key_def env_value_def dotenv_lookup_def py_or_def truthy_def bare_env_def
      ascii_strip_def strip_chars_def is_space_def starts_with_def ends_with_def Let_def)

subsection \<open>The endpoint: the table after the binding\<close>

text \<open>
  A request for an unknown model that comes with a credential finds the entry the binding
  created, which has no endpoint: the answer is status 500.
\<close>

lemma unknown_model_with_process_credential:
  "result (chat_completions gateway env_with_key 1000 no_models Unreachable []
      (hello ''gpt-x'') alice) =
     Inl (HTTPException 500 (Endpoint_not_configured ''gpt-x'') [])"
proof -
  let ?cfg = "bind_api_key (str_strip gateway) env_with_key [] no_models ''gpt-x''"
  have eff: "effective_api_key (str_strip gateway) env_with_key [] no_models ''gpt-x'' = Some ''sk-env''"
    by (simp add: effective_priority header_api_key_none env_api_key_env truthy_def)
  have mc: "get_model_config ?cfg ''gpt-x'' =
      empty_entry\<lparr>api_key := Some ''sk-env'', api_key_source := Some ''env''\<rparr>"
    using get_model_config_bound [OF eff]
    by (simp add: get_model_config_def no_models_def header_api_key_none truthy_def)
  have acc: "check_access (str_lower gateway) no_models alice ''gpt-x''"
    by (simp add: check_access_def get_access_control_def no_models_def)
  have m: "model (hello ''gpt-x'') = ''gpt-x''"
    by (simp add: hello_def)
  have rr: "route_request gateway ?cfg (hello ''gpt-x'') alice =
      (Inl (Http_error (HTTPException 500 (Endpoint_not_configured ''gpt-x'') [])), None)"
    unfolding route_request_def m Let_def mc
    by (simp add: check_access_bind acc entry_is_empty_def empty_entry_def)
  show ?thesis
    using acc by (simp add: chat_completions_def m check_rate_limit_def rr)
qed

text \<open>
  After a request for the unknown model that carried a credential header, the table has an
  entry for the model with no endpoint: a later request without any credential is answered
  with status 500, not 404.
\<close>

lemma unknown_model_after_credentialed_request:
  "result (chat_completions gateway bare_env 1060
      (fst (serve gateway bare_env no_models Unreachable
              [first_call\<lparr>call_request := hello ''gpt-x''\<rparr>]))
      Unreachable [] (hello ''gpt-x'') alice) =
     Inl (HTTPException 500 (Endpoint_not_configured ''gpt-x'') [])"
proof -
  let ?first = "chat_completions gateway bare_env 1000 no_models Unreachable caller_headers
      (hello ''gpt-x'') alice"
  let ?cfg = "bind_api_key (str_strip gateway) bare_env caller_headers no_models ''gpt-x''"
  have m: "model (hello ''gpt-x'') = ''gpt-x''"
    by (simp add: hello_def)
  have acc: "check_access (str_lower gateway) cfg alice ''gpt-x''" if "access_control cfg = []" for cfg
    using that by (simp add: check_access_def get_access_control_def)
  have q: "fst (check_rate_limit Unreachable now alice (model (hello ''gpt-x'')) l 60) = Inr True"
    for now l
    by (simp add: check_rate_limit_def)
  have n: "access_control no_models = []"
    by (simp add: no_models_def)
  have ca: "config_after ?first = ?cfg"
    using chat_completions_passed(2) [of gateway no_models alice "hello ''gpt-x''", OF _ q]
      acc [OF n] by (simp add: m)
  have e1: "effective_api_key (str_strip gateway) bare_env caller_headers no_models ''gpt-x'' =
      Some ''sk-caller''"
    by (simp add: effective_priority header_api_key_caller truthy_def)
  have mc: "get_model_config ?cfg ''gpt-x'' =
      empty_entry\<lparr>api_key := Some ''sk-caller'', api_key_source := Some ''header''\<rparr>"
    using get_model_config_bound [OF e1]
    by (simp add: get_model_config_def no_models_def header_api_key_caller truthy_def)
  have rules: "access_control ?cfg = []"
    by (simp add: access_control_bind n)
  have "cfg_api_key (str_strip gateway) bare_env (get_model_config ?cfg ''gpt-x'') =
      Some ''sk-caller''"
    by (rule cfg_api_key_plain) (simp_all add: mc starts_with_def)
  then have e2: "effective_api_key (str_strip gateway) bare_env [] ?cfg ''gpt-x'' = Some ''sk-caller''"
    by (simp add: effective_priority header_api_key_none env_api_key_bare truthy_def)
  have mc2: "get_model_config (bind_api_key (str_strip gateway) bare_env [] ?cfg ''gpt-x'') ''gpt-x'' =
      empty_entry\<lparr>api_key := Some ''sk-caller'', api_key_source := Some ''env''\<rparr>"
    using get_model_config_bound [OF e2] by (simp add: mc header_api_key_none truthy_def)
  have rr: "route_request gateway (bind_api_key (str_strip gateway) bare_env [] ?cfg ''gpt-x'')
      (hello ''gpt-x'') alice =
      (Inl (Http_error (HTTPException 500 (Endpoint_not_configured ''gpt-x'') [])), None)"
    unfolding route_request_def m Let_def mc2
    by (simp add: check_access_bind acc [OF n] entry_is_empty_def empty_entry_def)
  have s: "serve gateway bare_env no_models Unreachable [first_call\<lparr>call_request := hello ''gpt-x''\<rparr>] =
      (?cfg, Unreachable)"
    using serve_unreachable [of gateway bare_env no_models "[first_call\<lparr>call_request := hello ''gpt-x''\<rparr>]"]
      ca by (simp add: handle_call_def first_call_def)
  show ?thesis
    unfolding s using acc [OF rules]
    by (simp add: chat_completions_def m check_rate_limit_def rr)
qed

end
